theory Spec2Isabelle
  imports Main "HOL-Library.Word"
begin

unbundle bit_operations_syntax

section \<open>The PCF8583 real-time clock on its I2C bus (rtc/pcf8583.c)\<close>

subsection \<open>Types and constants\<close>

text \<open>
  \<open>BYTE\<close> is the emulator's unsigned 8-bit type. \<open>time_t\<close> is the C library's
  time value; the source only adds, subtracts and compares it for equality, and the
  model takes it as a 64-bit word, so that these operations wrap around.
\<close>

type_synonym BYTE = "8 word"
type_synonym time_t = "64 word"

text \<open>
  Modelled from the spec: the macros \<open>PCF8583_RAM_SIZE\<close> and \<open>PCF8583_REG_SIZE\<close> are
  declared in pcf8583.h, which is not among the sources. The spec gives 16 registers at
  addresses 0 to 15 and RAM from address 16 on; the header comment of pcf8583.c gives
  240 bytes of RAM (registers 16 to 255).
\<close>

definition PCF8583_RAM_SIZE :: nat where
  "PCF8583_RAM_SIZE = 240"

definition PCF8583_REG_SIZE :: nat where
  "PCF8583_REG_SIZE = 16"

definition PCF8583_REG_CONTROL :: nat where "PCF8583_REG_CONTROL = 0"
definition PCF8583_REG_100TH_SECONDS :: nat where "PCF8583_REG_100TH_SECONDS = 1"
definition PCF8583_REG_SECONDS :: nat where "PCF8583_REG_SECONDS = 2"
definition PCF8583_REG_MINUTES :: nat where "PCF8583_REG_MINUTES = 3"
definition PCF8583_REG_HOURS :: nat where "PCF8583_REG_HOURS = 4"
definition PCF8583_REG_YEARS_MONTH_DAYS :: nat where "PCF8583_REG_YEARS_MONTH_DAYS = 5"
definition PCF8583_REG_WEEK_DAYS_MONTHS :: nat where "PCF8583_REG_WEEK_DAYS_MONTHS = 6"
definition PCF8583_REG_TIMER_DAYS :: nat where "PCF8583_REG_TIMER_DAYS = 7"
definition PCF8583_REG_ALARM_CONTROL :: nat where "PCF8583_REG_ALARM_CONTROL = 8"
definition PCF8583_REG_100TH_SECONDS_ALARM :: nat where "PCF8583_REG_100TH_SECONDS_ALARM = 9"
definition PCF8583_REG_SECONDS_ALARM :: nat where "PCF8583_REG_SECONDS_ALARM = 10"
definition PCF8583_REG_MINUTES_ALARM :: nat where "PCF8583_REG_MINUTES_ALARM = 11"
definition PCF8583_REG_HOURS_ALARM :: nat where "PCF8583_REG_HOURS_ALARM = 12"
definition PCF8583_REG_DATE_ALARM :: nat where "PCF8583_REG_DATE_ALARM = 13"
definition PCF8583_REG_MONTH_ALARM :: nat where "PCF8583_REG_MONTH_ALARM = 14"
definition PCF8583_REG_TIMER_ALARM :: nat where "PCF8583_REG_TIMER_ALARM = 15"

text \<open>
  Modelled from the spec: the protocol states are macros of pcf8583.h; the spec lists
  the eleven of them, with \<open>IDLE\<close> the initial one.
\<close>

datatype pcf8583_state =
    PCF8583_IDLE
  | PCF8583_START_WAIT
  | PCF8583_GET_ADDRESS
  | PCF8583_ADDRESS_WRITE_ACK
  | PCF8583_ADDRESS_READ_ACK
  | PCF8583_GET_REG_NR
  | PCF8583_REG_NR_ACK
  | PCF8583_READ_REGS
  | PCF8583_READ_ACK
  | PCF8583_WRITE_REGS
  | PCF8583_WRITE_ACK

subsection \<open>The host clock and the time backend\<close>

text \<open>
  The chip reads the host's clock whenever it asks the backend for the running time.
  Every bus call of the model therefore takes the reading of the host clock at the
  moment of the call: \<open>host_time\<close> is what \<open>time(NULL)\<close> returns then, \<open>host_ticks\<close> the
  finer counter behind the sub-second register.
\<close>

record host =
  host_time :: time_t
  host_ticks :: nat

text \<open>
  Modelled from the spec: \<open>rtc_get_latch\<close> is a function of rtc.c, which is not among
  the sources. The spec's time offset model gives the running time as the host time
  plus the offset.
\<close>

definition rtc_get_latch :: "host \<Rightarrow> time_t \<Rightarrow> time_t" where
  "rtc_get_latch h time_offset = host_time h + time_offset"

text \<open>
  The calendar arithmetic of rtc.c is an external collaborator. Its accessors are
  parameters of the model, under the names the source calls them by. A setter on an
  offset reads the host clock, a setter on a latched time value does not. The last
  argument is the source's \<open>bcd\<close> flag.
\<close>

record rtc_backend =
  rtc_get_centisecond :: "host \<Rightarrow> int \<Rightarrow> BYTE"
  rtc_get_second :: "time_t \<Rightarrow> int \<Rightarrow> BYTE"
  rtc_get_minute :: "time_t \<Rightarrow> int \<Rightarrow> BYTE"
  rtc_get_hour :: "time_t \<Rightarrow> int \<Rightarrow> BYTE"
  rtc_get_hour_am_pm :: "time_t \<Rightarrow> int \<Rightarrow> BYTE"
  rtc_get_day_of_month :: "time_t \<Rightarrow> int \<Rightarrow> BYTE"
  rtc_get_month :: "time_t \<Rightarrow> int \<Rightarrow> BYTE"
  rtc_get_year :: "time_t \<Rightarrow> int \<Rightarrow> BYTE"
  rtc_get_weekday :: "time_t \<Rightarrow> BYTE"
  rtc_set_second :: "host \<Rightarrow> int \<Rightarrow> time_t \<Rightarrow> int \<Rightarrow> time_t"
  rtc_set_minute :: "host \<Rightarrow> int \<Rightarrow> time_t \<Rightarrow> int \<Rightarrow> time_t"
  rtc_set_hour :: "host \<Rightarrow> int \<Rightarrow> time_t \<Rightarrow> int \<Rightarrow> time_t"
  rtc_set_hour_am_pm :: "host \<Rightarrow> int \<Rightarrow> time_t \<Rightarrow> int \<Rightarrow> time_t"
  rtc_set_day_of_month :: "host \<Rightarrow> int \<Rightarrow> time_t \<Rightarrow> int \<Rightarrow> time_t"
  rtc_set_month :: "host \<Rightarrow> int \<Rightarrow> time_t \<Rightarrow> int \<Rightarrow> time_t"
  rtc_set_year :: "host \<Rightarrow> int \<Rightarrow> time_t \<Rightarrow> int \<Rightarrow> time_t"
  rtc_set_weekday :: "host \<Rightarrow> int \<Rightarrow> time_t \<Rightarrow> time_t"
  rtc_set_latched_second :: "int \<Rightarrow> time_t \<Rightarrow> int \<Rightarrow> time_t"
  rtc_set_latched_minute :: "int \<Rightarrow> time_t \<Rightarrow> int \<Rightarrow> time_t"
  rtc_set_latched_hour :: "int \<Rightarrow> time_t \<Rightarrow> int \<Rightarrow> time_t"
  rtc_set_latched_hour_am_pm :: "int \<Rightarrow> time_t \<Rightarrow> int \<Rightarrow> time_t"
  rtc_set_latched_day_of_month :: "int \<Rightarrow> time_t \<Rightarrow> int \<Rightarrow> time_t"
  rtc_set_latched_month :: "int \<Rightarrow> time_t \<Rightarrow> int \<Rightarrow> time_t"
  rtc_set_latched_year :: "int \<Rightarrow> time_t \<Rightarrow> int \<Rightarrow> time_t"
  rtc_set_latched_weekday :: "int \<Rightarrow> time_t \<Rightarrow> time_t"

subsection \<open>The context\<close>

text \<open>
  Modelled from the spec: \<open>rtc_pcf8583_t\<close> is declared in pcf8583.h, which is not among
  the sources. The fields are those pcf8583.c reads and writes, under its names
  (\<open>bit\<close> is \<open>bit_n\<close> here). Following the spec's data model, the halt flag and the 12h
  flag are booleans (the source only stores 0 or 1 in them and tests them), the shift
  register, the bit counter, the register pointer and the two line levels are bytes,
  and the register and RAM blocks are byte arrays, lists here, of \<open>PCF8583_REG_SIZE\<close>
  and \<open>PCF8583_RAM_SIZE\<close> elements.
\<close>

record rtc_pcf8583_t =
  clock_halt :: bool
  clock_halt_latch :: time_t
  am_pm :: bool
  offset :: time_t
  old_offset :: time_t
  clock_regs :: "BYTE list"
  old_clock_regs :: "BYTE list"
  clock_regs_for_read :: "BYTE list"
  ram :: "BYTE list"
  old_ram :: "BYTE list"
  state :: pcf8583_state
  reg :: BYTE
  reg_ptr :: BYTE
  bit_n :: BYTE
  sclk_line :: BYTE
  data_line :: BYTE
  device :: string

text \<open>
  The persistence backend is an external collaborator as well: \<open>pcf8583_init\<close> takes
  what \<open>rtc_load_context\<close> found (nothing, or the RAM block, the offset and the
  register block), and \<open>pcf8583_destroy\<close> returns the arguments of its call of
  \<open>rtc_save_context\<close>, if it makes one.
\<close>

type_synonym rtc_loaded = "(BYTE list \<times> time_t \<times> BYTE list) option"

type_synonym rtc_save_call = "BYTE list \<times> nat \<times> BYTE list \<times> nat \<times> string \<times> time_t"

subsection \<open>Creation and destruction\<close>

definition pcf8583_init :: "string \<Rightarrow> rtc_loaded \<Rightarrow> rtc_pcf8583_t" where
  "pcf8583_init dev loaded =
     (let (r, off, g) =
            (case loaded of
               Some (lr, loff, lg) \<Rightarrow> (lr, loff, lg)
             | None \<Rightarrow> (replicate PCF8583_RAM_SIZE 0, 0, replicate PCF8583_REG_SIZE 0))
      in \<lparr> clock_halt = False, clock_halt_latch = 0, am_pm = False,
           offset = off, old_offset = off,
           clock_regs = g, old_clock_regs = take PCF8583_REG_SIZE g,
           clock_regs_for_read = replicate PCF8583_REG_SIZE 0,
           ram = r, old_ram = take PCF8583_RAM_SIZE r,
           state = PCF8583_IDLE, reg = 0, reg_ptr = 0, bit_n = 0,
           sclk_line = 1, data_line = 1, device = dev \<rparr>)"

text \<open>\<open>memcmp\<close> compares the first \<open>PCF8583_RAM_SIZE\<close> (\<open>PCF8583_REG_SIZE\<close>) bytes.\<close>

definition pcf8583_destroy :: "rtc_pcf8583_t \<Rightarrow> int \<Rightarrow> rtc_save_call option" where
  "pcf8583_destroy c save =
     (if save \<noteq> 0 then
        (if take PCF8583_RAM_SIZE (ram c) \<noteq> take PCF8583_RAM_SIZE (old_ram c) \<or>
            take PCF8583_REG_SIZE (clock_regs c) \<noteq> take PCF8583_REG_SIZE (old_clock_regs c) \<or>
            offset c \<noteq> old_offset c
         then Some (ram c, PCF8583_RAM_SIZE, clock_regs c, PCF8583_REG_SIZE, device c, offset c)
         else None)
      else None)"

subsection \<open>The register bank\<close>

text \<open>The hours byte of the snapshot, as \<open>pcf8583_i2c_start\<close> builds it in \<open>tmp\<close>.\<close>

definition i2c_start_hours :: "rtc_backend \<Rightarrow> rtc_pcf8583_t \<Rightarrow> time_t \<Rightarrow> BYTE" where
  "i2c_start_hours rtc c latch =
     (let tmp = (if am_pm c then 0x80 else 0) in
      if am_pm c then
        (let tmp = tmp OR rtc_get_hour_am_pm rtc latch 1 in
         if tmp AND 0x20 \<noteq> 0 then (tmp AND 0xdf) OR 0x40 else tmp)
      else tmp OR rtc_get_hour rtc latch 1)"

definition pcf8583_i2c_start :: "rtc_backend \<Rightarrow> host \<Rightarrow> rtc_pcf8583_t \<Rightarrow> rtc_pcf8583_t" where
  "pcf8583_i2c_start rtc h c =
     (let latch = (if clock_halt c then clock_halt_latch c else rtc_get_latch h (offset c));
          r = clock_regs_for_read c;
          r = r[PCF8583_REG_CONTROL := clock_regs c ! PCF8583_REG_CONTROL];
          r = r[PCF8583_REG_100TH_SECONDS := rtc_get_centisecond rtc h 1];
          r = r[PCF8583_REG_SECONDS := rtc_get_second rtc latch 1];
          r = r[PCF8583_REG_MINUTES := rtc_get_minute rtc latch 1];
          r = r[PCF8583_REG_HOURS := i2c_start_hours rtc c latch];
          tmp = rtc_get_year rtc latch 1;
          tmp = tmp AND 3;
          tmp = push_bit 6 tmp;
          tmp = tmp OR rtc_get_day_of_month rtc latch 1;
          r = r[PCF8583_REG_YEARS_MONTH_DAYS := tmp];
          tmp = rtc_get_weekday rtc latch + 1;
          tmp = tmp AND 7;
          tmp = push_bit 5 tmp;
          tmp = tmp OR rtc_get_month rtc latch 1;
          r = r[PCF8583_REG_WEEK_DAYS_MONTHS := tmp];
          r = r[PCF8583_REG_TIMER_DAYS := 0];
          r = fold (\<lambda>i r. r[i := clock_regs c ! i])
                [PCF8583_REG_ALARM_CONTROL ..< Suc PCF8583_REG_TIMER_ALARM] r
      in c\<lparr>clock_regs_for_read := r\<rparr>)"

definition pcf8583_read_register :: "rtc_pcf8583_t \<Rightarrow> BYTE \<Rightarrow> BYTE" where
  "pcf8583_read_register c addr =
     (if unat addr < PCF8583_REG_SIZE then clock_regs_for_read c ! unat addr
      else ram c ! (unat addr - PCF8583_REG_SIZE))"

definition pcf8583_write_register ::
  "rtc_backend \<Rightarrow> host \<Rightarrow> rtc_pcf8583_t \<Rightarrow> BYTE \<Rightarrow> BYTE \<Rightarrow> rtc_pcf8583_t" where
  "pcf8583_write_register rtc h c addr val =
     (if unat addr = PCF8583_REG_MINUTES then
        (if clock_halt c
         then c\<lparr>clock_halt_latch := rtc_set_latched_minute rtc (uint val) (clock_halt_latch c) 1\<rparr>
         else c\<lparr>offset := rtc_set_minute rtc h (uint val) (offset c) 1\<rparr>)
      else if unat addr = PCF8583_REG_CONTROL then
        (let c = (if clock_halt c then
                    (if val AND 0x80 = 0
                     then c\<lparr>offset := offset c - (rtc_get_latch h 0 - (clock_halt_latch c - offset c)),
                            clock_halt := False\<rparr>
                     else c)
                  else
                    (if val AND 0x80 \<noteq> 0
                     then c\<lparr>clock_halt := True, clock_halt_latch := rtc_get_latch h (offset c)\<rparr>
                     else c))
         in c\<lparr>clock_regs := (clock_regs c)[PCF8583_REG_CONTROL := val]\<rparr>)
      else if unat addr = PCF8583_REG_100TH_SECONDS \<or> unat addr = PCF8583_REG_TIMER_DAYS then c
      else if unat addr = PCF8583_REG_SECONDS then
        (if clock_halt c
         then c\<lparr>clock_halt_latch := rtc_set_latched_second rtc (uint val) (clock_halt_latch c) 1\<rparr>
         else c\<lparr>offset := rtc_set_second rtc h (uint val) (offset c) 1\<rparr>)
      else if unat addr = PCF8583_REG_HOURS then
        (if val AND 0x80 \<noteq> 0 then
           (let c = (if clock_halt c
                     then c\<lparr>clock_halt_latch :=
                             rtc_set_latched_hour_am_pm rtc (uint (val AND 0x3f)) (clock_halt_latch c) 1\<rparr>
                     else c\<lparr>offset := rtc_set_hour_am_pm rtc h (uint (val AND 0x3f)) (offset c) 1\<rparr>)
            in c\<lparr>am_pm := True\<rparr>)
         else
           (let c = (if clock_halt c
                     then c\<lparr>clock_halt_latch :=
                             rtc_set_latched_hour rtc (uint (val AND 0x3f)) (clock_halt_latch c) 1\<rparr>
                     else c\<lparr>offset := rtc_set_hour rtc h (uint (val AND 0x3f)) (offset c) 1\<rparr>)
            in c\<lparr>am_pm := False\<rparr>))
      else if unat addr = PCF8583_REG_YEARS_MONTH_DAYS then
        (if clock_halt c then
           (let c = c\<lparr>clock_halt_latch :=
                       rtc_set_latched_year rtc (uint (drop_bit 6 (val AND 0xc0))) (clock_halt_latch c) 1\<rparr>
            in c\<lparr>clock_halt_latch :=
                   rtc_set_latched_day_of_month rtc (uint (val AND 0x3f)) (clock_halt_latch c) 1\<rparr>)
         else
           (let c = c\<lparr>offset := rtc_set_year rtc h (uint (drop_bit 6 (val AND 0xc0))) (offset c) 1\<rparr>
            in c\<lparr>offset := rtc_set_day_of_month rtc h (uint (val AND 0x3f)) (offset c) 1\<rparr>))
      else if unat addr = PCF8583_REG_WEEK_DAYS_MONTHS then
        (if clock_halt c then
           (let c = c\<lparr>clock_halt_latch :=
                       rtc_set_latched_weekday rtc (uint (drop_bit 5 (val AND 0xe0)) - 1) (clock_halt_latch c)\<rparr>
            in c\<lparr>clock_halt_latch :=
                   rtc_set_latched_month rtc (uint (val AND 0x1f)) (clock_halt_latch c) 1\<rparr>)
         else
           (let c = c\<lparr>offset := rtc_set_weekday rtc h (uint (drop_bit 5 (val AND 0xe0)) - 1) (offset c)\<rparr>
            in c\<lparr>offset := rtc_set_month rtc h (uint (val AND 0x1f)) (offset c) 1\<rparr>))
      else if unat addr = PCF8583_REG_ALARM_CONTROL \<or> unat addr = PCF8583_REG_100TH_SECONDS_ALARM \<or>
              unat addr = PCF8583_REG_SECONDS_ALARM \<or> unat addr = PCF8583_REG_MINUTES_ALARM \<or>
              unat addr = PCF8583_REG_HOURS_ALARM \<or> unat addr = PCF8583_REG_DATE_ALARM \<or>
              unat addr = PCF8583_REG_MONTH_ALARM \<or> unat addr = PCF8583_REG_TIMER_ALARM
      then c\<lparr>clock_regs := (clock_regs c)[unat addr := val]\<rparr>
      else c\<lparr>ram := (ram c)[unat addr - PCF8583_REG_SIZE := val]\<rparr>)"

subsection \<open>The protocol state machine\<close>

text \<open>
  The shift count \<open>7 - bit\<close> of the source is an \<open>int\<close>, negative (and the shift
  undefined) once \<open>bit\<close> exceeds 7; here it is a natural number, which stops at 0.
  Lemma \<open>run_shift_ok\<close> below shows that \<open>bit\<close> is at most 7 whenever a context
  made by \<open>pcf8583_init\<close> and driven through the bus calls shifts, so the two agree
  on every shift the chip performs.
\<close>

definition pcf8583_next_address_bit :: "rtc_pcf8583_t \<Rightarrow> rtc_pcf8583_t" where
  "pcf8583_next_address_bit c =
     (let c = c\<lparr>reg := reg c OR push_bit (7 - unat (bit_n c)) (data_line c)\<rparr>;
          c = c\<lparr>bit_n := bit_n c + 1\<rparr>
      in if bit_n c = 8 then
           (if reg c = 0xa0 then c\<lparr>state := PCF8583_ADDRESS_WRITE_ACK\<rparr>
            else if reg c = 0xa1 then c\<lparr>state := PCF8583_ADDRESS_READ_ACK\<rparr>
            else c\<lparr>state := PCF8583_IDLE\<rparr>)
         else c)"

definition pcf8583_next_reg_nr_bit :: "rtc_pcf8583_t \<Rightarrow> rtc_pcf8583_t" where
  "pcf8583_next_reg_nr_bit c =
     (let c = c\<lparr>reg := reg c OR push_bit (7 - unat (bit_n c)) (data_line c)\<rparr>;
          c = c\<lparr>bit_n := bit_n c + 1\<rparr>
      in if bit_n c = 8 then c\<lparr>state := PCF8583_REG_NR_ACK, reg_ptr := reg c\<rparr> else c)"

definition pcf8583_next_read_bit :: "rtc_pcf8583_t \<Rightarrow> rtc_pcf8583_t" where
  "pcf8583_next_read_bit c =
     (let c = c\<lparr>bit_n := bit_n c + 1\<rparr>
      in if bit_n c = 8 then c\<lparr>state := PCF8583_READ_ACK\<rparr> else c)"

definition pcf8583_next_write_bit :: "rtc_backend \<Rightarrow> host \<Rightarrow> rtc_pcf8583_t \<Rightarrow> rtc_pcf8583_t" where
  "pcf8583_next_write_bit rtc h c =
     (let c = c\<lparr>reg := reg c OR push_bit (7 - unat (bit_n c)) (data_line c)\<rparr>;
          c = c\<lparr>bit_n := bit_n c + 1\<rparr>
      in if bit_n c = 8 then
           (let c = pcf8583_write_register rtc h c (reg_ptr c) (reg c);
                c = c\<lparr>state := PCF8583_WRITE_ACK\<rparr>
            in c\<lparr>reg_ptr := reg_ptr c + 1\<rparr>)
         else c)"

definition pcf8583_validate_read_ack :: "rtc_pcf8583_t \<Rightarrow> rtc_pcf8583_t" where
  "pcf8583_validate_read_ack c =
     (if data_line c = 0 then
        (let c = c\<lparr>state := PCF8583_READ_REGS, bit_n := 0\<rparr>;
             c = c\<lparr>reg_ptr := reg_ptr c + 1\<rparr>
         in c\<lparr>reg := pcf8583_read_register c (reg_ptr c)\<rparr>)
      else c\<lparr>state := PCF8583_IDLE\<rparr>)"

definition pcf8583_set_clk_line ::
  "rtc_backend \<Rightarrow> host \<Rightarrow> rtc_pcf8583_t \<Rightarrow> BYTE \<Rightarrow> rtc_pcf8583_t" where
  "pcf8583_set_clk_line rtc h c data =
     (let val = (if data \<noteq> 0 then 1 else 0) in
      if sclk_line c = val then c
      else
        (let c =
           (if val = 0 then
              (case state c of
                 PCF8583_START_WAIT \<Rightarrow> c\<lparr>state := PCF8583_GET_ADDRESS\<rparr>
               | PCF8583_GET_ADDRESS \<Rightarrow> pcf8583_next_address_bit c
               | PCF8583_GET_REG_NR \<Rightarrow> pcf8583_next_reg_nr_bit c
               | PCF8583_READ_REGS \<Rightarrow> pcf8583_next_read_bit c
               | PCF8583_WRITE_REGS \<Rightarrow> pcf8583_next_write_bit rtc h c
               | PCF8583_READ_ACK \<Rightarrow> pcf8583_validate_read_ack c
               | PCF8583_ADDRESS_READ_ACK \<Rightarrow>
                   (let c = c\<lparr>state := PCF8583_READ_REGS\<rparr>;
                        c = c\<lparr>reg := pcf8583_read_register c (reg_ptr c)\<rparr>
                    in c\<lparr>bit_n := 0\<rparr>)
               | PCF8583_REG_NR_ACK \<Rightarrow> c\<lparr>state := PCF8583_WRITE_REGS, reg := 0, bit_n := 0\<rparr>
               | PCF8583_WRITE_ACK \<Rightarrow> c\<lparr>state := PCF8583_WRITE_REGS, reg := 0, bit_n := 0\<rparr>
               | PCF8583_ADDRESS_WRITE_ACK \<Rightarrow> c\<lparr>state := PCF8583_GET_REG_NR, reg := 0, bit_n := 0\<rparr>
               | PCF8583_IDLE \<Rightarrow> c)
            else c)
         in c\<lparr>sclk_line := val\<rparr>))"

definition pcf8583_set_data_line ::
  "rtc_backend \<Rightarrow> host \<Rightarrow> rtc_pcf8583_t \<Rightarrow> BYTE \<Rightarrow> rtc_pcf8583_t" where
  "pcf8583_set_data_line rtc h c data =
     (let val = (if data \<noteq> 0 then 1 else 0) in
      if data_line c = val then c
      else
        (let c =
           (if sclk_line c \<noteq> 0 then
              (if val \<noteq> 0 then c\<lparr>state := PCF8583_IDLE\<rparr>
               else
                 (let c = pcf8583_i2c_start rtc h c
                  in c\<lparr>state := PCF8583_START_WAIT, reg := 0, bit_n := 0\<rparr>))
            else c)
         in c\<lparr>data_line := val\<rparr>))"

text \<open>
  The source returns the byte and takes the context by pointer; the model returns the
  byte together with the context as the call leaves it.
\<close>

definition pcf8583_read_data_line :: "rtc_pcf8583_t \<Rightarrow> BYTE \<times> rtc_pcf8583_t" where
  "pcf8583_read_data_line c =
     (case state c of
        PCF8583_READ_REGS \<Rightarrow>
          (drop_bit (7 - unat (bit_n c)) (reg c AND push_bit (7 - unat (bit_n c)) 1), c)
      | PCF8583_ADDRESS_READ_ACK \<Rightarrow> (0, c)
      | PCF8583_ADDRESS_WRITE_ACK \<Rightarrow> (0, c)
      | PCF8583_REG_NR_ACK \<Rightarrow> (0, c)
      | PCF8583_READ_ACK \<Rightarrow> (0, c)
      | PCF8583_WRITE_ACK \<Rightarrow> (0, c)
      | _ \<Rightarrow> (1, c))"

subsection \<open>Driving the bus\<close>

text \<open>
  A bus call is \<open>pcf8583_set_clk_line\<close> or \<open>pcf8583_set_data_line\<close> with its argument,
  made at some reading of the host clock; the owning emulator makes them one after the
  other.
\<close>

datatype bus_call = Set_clk_line BYTE | Set_data_line BYTE

fun pcf8583_call :: "rtc_backend \<Rightarrow> rtc_pcf8583_t \<Rightarrow> host \<times> bus_call \<Rightarrow> rtc_pcf8583_t" where
  "pcf8583_call rtc c (h, Set_clk_line data) = pcf8583_set_clk_line rtc h c data"
| "pcf8583_call rtc c (h, Set_data_line data) = pcf8583_set_data_line rtc h c data"

definition pcf8583_run ::
  "rtc_backend \<Rightarrow> rtc_pcf8583_t \<Rightarrow> (host \<times> bus_call) list \<Rightarrow> rtc_pcf8583_t" where
  "pcf8583_run rtc c calls = foldl (pcf8583_call rtc) c calls"

text \<open>Register writes one after the other, each at its own reading of the host clock.\<close>

definition pcf8583_write_registers ::
  "rtc_backend \<Rightarrow> rtc_pcf8583_t \<Rightarrow> (host \<times> BYTE \<times> BYTE) list \<Rightarrow> rtc_pcf8583_t" where
  "pcf8583_write_registers rtc c ws =
     foldl (\<lambda>c (h, addr, val). pcf8583_write_register rtc h c addr val) c ws"

subsection \<open>Notions used in the statements\<close>

text \<open>
  The time value whose calendar fields the chip exposes at host reading \<open>h\<close>: the one
  \<open>pcf8583_i2c_start\<close> computes in \<open>latch\<close>.
\<close>

definition active_latch :: "host \<Rightarrow> rtc_pcf8583_t \<Rightarrow> time_t" where
  "active_latch h c = (if clock_halt c then clock_halt_latch c else rtc_get_latch h (offset c))"

text \<open>The addresses of the control register and of the five time fields.\<close>

definition time_or_control :: "BYTE \<Rightarrow> bool" where
  "time_or_control addr =
     (unat addr = PCF8583_REG_CONTROL \<or> unat addr = PCF8583_REG_SECONDS \<or>
      unat addr = PCF8583_REG_MINUTES \<or> unat addr = PCF8583_REG_HOURS \<or>
      unat addr = PCF8583_REG_YEARS_MONTH_DAYS \<or> unat addr = PCF8583_REG_WEEK_DAYS_MONTHS)"

text \<open>
  A stub backend for concrete instances: every getter returns a fixed byte (the 12h
  hour getter 0x32, hour 12 with the PM flag at bit 5), every setter returns the time
  value it was given.
\<close>

definition rtc_stub :: rtc_backend where
  "rtc_stub =
     \<lparr> rtc_get_centisecond = (\<lambda>h bcd. 0x42),
       rtc_get_second = (\<lambda>t bcd. 0x59),
       rtc_get_minute = (\<lambda>t bcd. 0x30),
       rtc_get_hour = (\<lambda>t bcd. 0x23),
       rtc_get_hour_am_pm = (\<lambda>t bcd. 0x32),
       rtc_get_day_of_month = (\<lambda>t bcd. 0x17),
       rtc_get_month = (\<lambda>t bcd. 0x11),
       rtc_get_year = (\<lambda>t bcd. 0x26),
       rtc_get_weekday = (\<lambda>t. 5),
       rtc_set_second = (\<lambda>h v t bcd. t),
       rtc_set_minute = (\<lambda>h v t bcd. t),
       rtc_set_hour = (\<lambda>h v t bcd. t),
       rtc_set_hour_am_pm = (\<lambda>h v t bcd. t),
       rtc_set_day_of_month = (\<lambda>h v t bcd. t),
       rtc_set_month = (\<lambda>h v t bcd. t),
       rtc_set_year = (\<lambda>h v t bcd. t),
       rtc_set_weekday = (\<lambda>h v t. t),
       rtc_set_latched_second = (\<lambda>v t bcd. t),
       rtc_set_latched_minute = (\<lambda>v t bcd. t),
       rtc_set_latched_hour = (\<lambda>v t bcd. t),
       rtc_set_latched_hour_am_pm = (\<lambda>v t bcd. t),
       rtc_set_latched_day_of_month = (\<lambda>v t bcd. t),
       rtc_set_latched_month = (\<lambda>v t bcd. t),
       rtc_set_latched_year = (\<lambda>v t bcd. t),
       rtc_set_latched_weekday = (\<lambda>v t. t) \<rparr>"

definition host_at :: "nat \<Rightarrow> host" where
  "host_at n = \<lparr> host_time = of_nat n, host_ticks = 0 \<rparr>"

text \<open>
  The bit counter is in range wherever the chip shifts: it is 0 while the chip waits
  for the first clock edge after START, and below 8 in the four states that clock a
  byte in or out.
\<close>

definition shift_ok :: "rtc_pcf8583_t \<Rightarrow> bool" where
  "shift_ok c =
     (case state c of
        PCF8583_START_WAIT \<Rightarrow> bit_n c = 0
      | PCF8583_GET_ADDRESS \<Rightarrow> unat (bit_n c) < 8
      | PCF8583_GET_REG_NR \<Rightarrow> unat (bit_n c) < 8
      | PCF8583_READ_REGS \<Rightarrow> unat (bit_n c) < 8
      | PCF8583_WRITE_REGS \<Rightarrow> unat (bit_n c) < 8
      | _ \<Rightarrow> True)"

text \<open>The arrays of the context have the sizes the structure declares.\<close>

definition ctx_sized :: "rtc_pcf8583_t \<Rightarrow> bool" where
  "ctx_sized c =
     (length (ram c) = PCF8583_RAM_SIZE \<and> length (old_ram c) = PCF8583_RAM_SIZE \<and>
      length (clock_regs c) = PCF8583_REG_SIZE \<and> length (old_clock_regs c) = PCF8583_REG_SIZE \<and>
      length (clock_regs_for_read c) = PCF8583_REG_SIZE)"

text \<open>What \<open>rtc_load_context\<close> hands over has the sizes it was asked for.\<close>

definition loaded_sized :: "rtc_loaded \<Rightarrow> bool" where
  "loaded_sized loaded =
     (case loaded of
        None \<Rightarrow> True
      | Some (r, off, g) \<Rightarrow> length r = PCF8583_RAM_SIZE \<and> length g = PCF8583_REG_SIZE)"

text \<open>A call is a START condition: the data line falls while the clock line is high.\<close>

fun start_condition :: "rtc_pcf8583_t \<Rightarrow> host \<times> bus_call \<Rightarrow> bool" where
  "start_condition c (h, Set_data_line data) = (data = 0 \<and> data_line c \<noteq> 0 \<and> sclk_line c \<noteq> 0)"
| "start_condition c (h, Set_clk_line data) = False"

fun no_start :: "rtc_backend \<Rightarrow> rtc_pcf8583_t \<Rightarrow> (host \<times> bus_call) list \<Rightarrow> bool" where
  "no_start rtc c [] = True"
| "no_start rtc c (x # xs) = (\<not> start_condition c x \<and> no_start rtc (pcf8583_call rtc c x) xs)"

text \<open>A call is a falling edge of the clock line.\<close>

fun falling_edge :: "rtc_pcf8583_t \<Rightarrow> host \<times> bus_call \<Rightarrow> bool" where
  "falling_edge c (h, Set_clk_line data) = (data = 0 \<and> sclk_line c \<noteq> 0)"
| "falling_edge c (h, Set_data_line data) = False"

text \<open>
  The three byte transfers that move the register pointer: the falling edge that clocks
  in the eighth bit of the pointer byte, the one that clocks in the eighth bit of a
  data byte, and the one that samples the master's acknowledge of a byte read.
\<close>

definition pointer_commit :: "rtc_pcf8583_t \<Rightarrow> host \<times> bus_call \<Rightarrow> bool" where
  "pointer_commit c x = (falling_edge c x \<and> state c = PCF8583_GET_REG_NR \<and> bit_n c = 7)"

definition write_commit :: "rtc_pcf8583_t \<Rightarrow> host \<times> bus_call \<Rightarrow> bool" where
  "write_commit c x = (falling_edge c x \<and> state c = PCF8583_WRITE_REGS \<and> bit_n c = 7)"

definition read_acked :: "rtc_pcf8583_t \<Rightarrow> host \<times> bus_call \<Rightarrow> bool" where
  "read_acked c x = (falling_edge c x \<and> state c = PCF8583_READ_ACK \<and> data_line c = 0)"

fun no_write_commit :: "rtc_backend \<Rightarrow> rtc_pcf8583_t \<Rightarrow> (host \<times> bus_call) list \<Rightarrow> bool" where
  "no_write_commit rtc c [] = True"
| "no_write_commit rtc c (x # xs) =
     (\<not> write_commit c x \<and> no_write_commit rtc (pcf8583_call rtc c x) xs)"

fun no_byte_commit :: "rtc_backend \<Rightarrow> rtc_pcf8583_t \<Rightarrow> (host \<times> bus_call) list \<Rightarrow> bool" where
  "no_byte_commit rtc c [] = True"
| "no_byte_commit rtc c (x # xs) =
     (\<not> pointer_commit c x \<and> \<not> write_commit c x \<and> no_byte_commit rtc (pcf8583_call rtc c x) xs)"

text \<open>
  The three calls that abort a transfer. A STOP condition: the data line rises while
  the clock line is high. A rejected address: the falling clock edge that clocks in
  the eighth bit of an address byte other than 0xA0 and 0xA1 (the shift count is 0
  for that bit). A read NACK: the falling clock edge that samples the master's
  acknowledge of a byte read while the data line is high.
\<close>

fun stop_condition :: "rtc_pcf8583_t \<Rightarrow> host \<times> bus_call \<Rightarrow> bool" where
  "stop_condition c (h, Set_data_line data) = (data \<noteq> 0 \<and> data_line c \<noteq> 1 \<and> sclk_line c \<noteq> 0)"
| "stop_condition c (h, Set_clk_line data) = False"

definition address_rejected :: "rtc_pcf8583_t \<Rightarrow> host \<times> bus_call \<Rightarrow> bool" where
  "address_rejected c x =
     (falling_edge c x \<and> state c = PCF8583_GET_ADDRESS \<and> bit_n c = 7 \<and>
      reg c OR data_line c \<noteq> 0xa0 \<and> reg c OR data_line c \<noteq> 0xa1)"

definition read_nacked :: "rtc_pcf8583_t \<Rightarrow> host \<times> bus_call \<Rightarrow> bool" where
  "read_nacked c x = (falling_edge c x \<and> state c = PCF8583_READ_ACK \<and> data_line c \<noteq> 0)"

definition aborts :: "rtc_pcf8583_t \<Rightarrow> host \<times> bus_call \<Rightarrow> bool" where
  "aborts c x = (stop_condition c x \<or> address_rejected c x \<or> read_nacked c x)"

text \<open>
  The index a register access at \<open>addr\<close> uses lies within the block it goes to: the
  snapshot and the stored registers below \<open>PCF8583_REG_SIZE\<close>, the RAM from there on.
\<close>

definition index_ok :: "rtc_pcf8583_t \<Rightarrow> BYTE \<Rightarrow> bool" where
  "index_ok c addr =
     (if unat addr < PCF8583_REG_SIZE
      then unat addr < length (clock_regs_for_read c) \<and> unat addr < length (clock_regs c)
      else unat addr - PCF8583_REG_SIZE < length (ram c))"

text \<open>The baseline copies taken at creation, and the device name.\<close>

definition baseline :: "rtc_pcf8583_t \<Rightarrow> BYTE list \<times> BYTE list \<times> time_t \<times> string" where
  "baseline c = (old_ram c, old_clock_regs c, old_offset c, device c)"

subsection \<open>The bus master\<close>

text \<open>
  The line-level calls of a bus master. A bit is put on the data line while the clock
  is low and clocked in by a clock pulse; a byte goes most significant bit first; the
  acknowledge is one more clock pulse. A transaction opens with the START condition,
  the data line falling while the clock is high, and the clock then going low.
\<close>

definition send_bit :: "bool \<Rightarrow> bus_call list" where
  "send_bit b = [Set_data_line (of_bool b), Set_clk_line 1, Set_clk_line 0]"

definition send_byte :: "BYTE \<Rightarrow> bus_call list" where
  "send_byte w = concat (map (\<lambda>i. send_bit (bit w i)) [7, 6, 5, 4, 3, 2, 1, 0])"

definition clock_pulse :: "bus_call list" where
  "clock_pulse = [Set_clk_line 1, Set_clk_line 0]"

definition start_lines :: "bus_call list" where
  "start_lines = [Set_data_line 0, Set_clk_line 0]"

definition write_transaction :: "BYTE \<Rightarrow> BYTE \<Rightarrow> bus_call list" where
  "write_transaction P V =
     start_lines @ send_byte 0xa0 @ clock_pulse @ send_byte P @ clock_pulse @
     send_byte V @ clock_pulse"

text \<open>
  What clocking one bit in does to the context in the states that assemble a byte,
  short of the eighth bit: the bit is on the data line, the clock is low again, the
  shift register has the bit at position 7 minus the bit counter, and the bit counter
  has advanced.
\<close>

definition shift_in :: "bool \<Rightarrow> rtc_pcf8583_t \<Rightarrow> rtc_pcf8583_t" where
  "shift_in b c =
     c\<lparr>data_line := of_bool b, sclk_line := 0,
       reg := reg c OR push_bit (7 - unat (bit_n c)) (of_bool b),
       bit_n := bit_n c + 1\<rparr>"

definition assembling :: "rtc_pcf8583_t \<Rightarrow> bool" where
  "assembling c =
     (state c = PCF8583_GET_ADDRESS \<or> state c = PCF8583_GET_REG_NR \<or>
      state c = PCF8583_WRITE_REGS)"

fun shift_ins :: "bool list \<Rightarrow> rtc_pcf8583_t \<Rightarrow> rtc_pcf8583_t" where
  "shift_ins [] c = c"
| "shift_ins (b # bs) c = shift_ins bs (shift_in b c)"

text \<open>What a register write can change: the stored state of the chip.\<close>

definition stored ::
  "rtc_pcf8583_t \<Rightarrow> BYTE list \<times> BYTE list \<times> time_t \<times> bool \<times> time_t \<times> bool" where
  "stored c = (ram c, clock_regs c, offset c, clock_halt c, clock_halt_latch c, am_pm c)"

text \<open>The stored register or RAM cell at an address.\<close>

definition cell :: "rtc_pcf8583_t \<Rightarrow> BYTE \<Rightarrow> BYTE" where
  "cell c addr =
     (if unat addr < PCF8583_REG_SIZE then clock_regs c ! unat addr
      else ram c ! (unat addr - PCF8583_REG_SIZE))"

section \<open>Properties\<close>

lemmas pcf8583_consts =
  PCF8583_RAM_SIZE_def PCF8583_REG_SIZE_def
  PCF8583_REG_CONTROL_def PCF8583_REG_100TH_SECONDS_def PCF8583_REG_SECONDS_def
  PCF8583_REG_MINUTES_def PCF8583_REG_HOURS_def PCF8583_REG_YEARS_MONTH_DAYS_def
  PCF8583_REG_WEEK_DAYS_MONTHS_def PCF8583_REG_TIMER_DAYS_def
  PCF8583_REG_ALARM_CONTROL_def PCF8583_REG_100TH_SECONDS_ALARM_def
  PCF8583_REG_SECONDS_ALARM_def PCF8583_REG_MINUTES_ALARM_def
  PCF8583_REG_HOURS_ALARM_def PCF8583_REG_DATE_ALARM_def
  PCF8583_REG_MONTH_ALARM_def PCF8583_REG_TIMER_ALARM_def

subsection \<open>Bytes, bit by bit\<close>

lemma all_less_8:
  "(\<forall>n<8. P n) = (P 0 \<and> P (Suc 0) \<and> P 2 \<and> P 3 \<and> P 4 \<and> P 5 \<and> P 6 \<and> P (7::nat))"
proof
  assume "\<forall>n<8. P n"
  then show "P 0 \<and> P (Suc 0) \<and> P 2 \<and> P 3 \<and> P 4 \<and> P 5 \<and> P 6 \<and> P 7" by simp
next
  assume a: "P 0 \<and> P (Suc 0) \<and> P 2 \<and> P 3 \<and> P 4 \<and> P 5 \<and> P 6 \<and> P 7"
  show "\<forall>n<8. P n"
  proof (intro allI impI)
    fix n :: nat
    assume "n < 8"
    then have "n = 0 \<or> n = Suc 0 \<or> n = 2 \<or> n = 3 \<or> n = 4 \<or> n = 5 \<or> n = 6 \<or> n = 7"
      by arith
    with a show "P n" by auto
  qed
qed

lemma byte_eq_iff:
  "(a :: BYTE) = b \<longleftrightarrow>
     (bit a 0 = bit b 0) \<and> (bit a (Suc 0) = bit b (Suc 0)) \<and> (bit a 2 = bit b 2) \<and>
     (bit a 3 = bit b 3) \<and> (bit a 4 = bit b 4) \<and> (bit a 5 = bit b 5) \<and>
     (bit a 6 = bit b 6) \<and> (bit a 7 = bit b 7)"
proof -
  have "(a = b) = (\<forall>n<8. bit a n = bit b n)"
    by (auto intro: bit_word_eqI)
  then show ?thesis by (simp only: all_less_8)
qed

subsection \<open>The register bank\<close>

text \<open>
  Claim C9. For every context and every byte, the register write at address 1 (the
  sub-second register) or at address 7 (timer days) returns the context as it was:
  no register, RAM cell, offset, halt latch or flag changes.
\<close>

theorem write_register_ignored:
  "unat addr = PCF8583_REG_100TH_SECONDS \<or> unat addr = PCF8583_REG_TIMER_DAYS \<Longrightarrow>
   pcf8583_write_register rtc h c addr val = c"
  by (auto simp add: pcf8583_write_register_def pcf8583_consts)

theorem write_register_ignored_witness:
  "unat (7 :: BYTE) = PCF8583_REG_TIMER_DAYS \<and>
   pcf8583_write_register rtc_stub (host_at 5) (pcf8583_init ''rtc'' None) 7 0xff =
   pcf8583_init ''rtc'' None"
proof -
  have a: "unat (7 :: BYTE) = PCF8583_REG_TIMER_DAYS"
    by (simp add: PCF8583_REG_TIMER_DAYS_def)
  then have "unat (7 :: BYTE) = PCF8583_REG_100TH_SECONDS \<or> unat (7 :: BYTE) = PCF8583_REG_TIMER_DAYS" ..
  from a write_register_ignored [OF this] show ?thesis by (rule conjI)
qed

text \<open>
  Claim C10. Reading the data line leaves every field of the context as it was, and a
  second read right after the first returns the same bit.
\<close>

theorem read_data_line_pure:
  "snd (pcf8583_read_data_line c) = c \<and>
   fst (pcf8583_read_data_line (snd (pcf8583_read_data_line c))) = fst (pcf8583_read_data_line c)"
  by (simp add: pcf8583_read_data_line_def split: pcf8583_state.splits)

text \<open>The snapshot's hours byte is the one \<open>i2c_start_hours\<close> builds.\<close>

lemma i2c_start_hours_nth:
  "length (clock_regs_for_read c) = PCF8583_REG_SIZE \<Longrightarrow>
   clock_regs_for_read (pcf8583_i2c_start rtc h c) ! PCF8583_REG_HOURS =
   i2c_start_hours rtc c (active_latch h c)"
  by (simp add: pcf8583_i2c_start_def Let_def pcf8583_consts active_latch_def)

lemma hours_12h_bits:
  fixes raw :: BYTE
  shows "(0x80 OR raw) AND 0x80 = 0x80"
    and "(((0x80 OR raw) AND 0xdf) OR 0x40) AND 0x80 = 0x80"
    and "(((0x80 OR raw) AND 0xdf) OR 0x40) AND 0x20 = 0"
    and "(((0x80 OR raw) AND 0xdf) OR 0x40) AND 0x40 = 0x40"
    and "((0x80 OR raw) AND 0x20 \<noteq> 0) = (raw AND 0x20 \<noteq> 0)"
  by (simp_all add: byte_eq_iff bit_simps)

lemma snapshot_hours_12h:
  assumes "length (clock_regs_for_read c) = PCF8583_REG_SIZE" and "am_pm c"
  shows "(let hb = clock_regs_for_read (pcf8583_i2c_start rtc h c) ! PCF8583_REG_HOURS;
              raw = rtc_get_hour_am_pm rtc (active_latch h c) 1
          in hb AND 0x80 = 0x80 \<and>
             (raw AND 0x20 \<noteq> 0 \<longrightarrow> hb AND 0x20 = 0 \<and> hb AND 0x40 = 0x40))"
  using assms
  by (simp add: i2c_start_hours_nth i2c_start_hours_def Let_def hours_12h_bits)

lemma write_hours_12h:
  "val AND 0x80 \<noteq> 0 \<Longrightarrow>
   am_pm (pcf8583_write_register rtc h c (of_nat PCF8583_REG_HOURS) val) \<and>
   clock_regs_for_read (pcf8583_write_register rtc h c (of_nat PCF8583_REG_HOURS) val) =
     clock_regs_for_read c"
  by (simp add: pcf8583_write_register_def pcf8583_consts Let_def)

text \<open>
  Claim C5. When the 12h flag \<open>am_pm\<close> is set, the hours byte that START puts into the
  read snapshot has bit 7 set; and when the backend's 12h hour value has bit 0x20 set,
  that byte has bit 0x20 clear and bit 0x40 set. A write of the hours register with
  bit 7 set sets the flag, so the snapshot taken at a START after such a write has
  these properties. (The snapshot is the 16-byte array of the context.)
\<close>

theorem snapshot_hours_am_pm:
  assumes "length (clock_regs_for_read c) = PCF8583_REG_SIZE"
  shows "(am_pm c \<longrightarrow>
            (let hb = clock_regs_for_read (pcf8583_i2c_start rtc h c) ! PCF8583_REG_HOURS;
                 raw = rtc_get_hour_am_pm rtc (active_latch h c) 1
             in hb AND 0x80 = 0x80 \<and>
                (raw AND 0x20 \<noteq> 0 \<longrightarrow> hb AND 0x20 = 0 \<and> hb AND 0x40 = 0x40))) \<and>
         (val AND 0x80 \<noteq> 0 \<longrightarrow>
            (let c' = pcf8583_write_register rtc hw c (of_nat PCF8583_REG_HOURS) val;
                 hb = clock_regs_for_read (pcf8583_i2c_start rtc h c') ! PCF8583_REG_HOURS;
                 raw = rtc_get_hour_am_pm rtc (active_latch h c') 1
             in am_pm c' \<and> hb AND 0x80 = 0x80 \<and>
                (raw AND 0x20 \<noteq> 0 \<longrightarrow> hb AND 0x20 = 0 \<and> hb AND 0x40 = 0x40)))"
proof (intro conjI impI)
  assume "am_pm c"
  with assms show
    "let hb = clock_regs_for_read (pcf8583_i2c_start rtc h c) ! PCF8583_REG_HOURS;
         raw = rtc_get_hour_am_pm rtc (active_latch h c) 1
     in hb AND 0x80 = 0x80 \<and> (raw AND 0x20 \<noteq> 0 \<longrightarrow> hb AND 0x20 = 0 \<and> hb AND 0x40 = 0x40)"
    by (rule snapshot_hours_12h)
next
  assume v: "val AND 0x80 \<noteq> 0"
  define c' where "c' = pcf8583_write_register rtc hw c (of_nat PCF8583_REG_HOURS) val"
  from v have w: "am_pm c'" "clock_regs_for_read c' = clock_regs_for_read c"
    unfolding c'_def using write_hours_12h [of val rtc hw c] by simp_all
  with assms have "length (clock_regs_for_read c') = PCF8583_REG_SIZE" by simp
  from snapshot_hours_12h [OF this w(1), of rtc h] w(1)
  show "let c' = pcf8583_write_register rtc hw c (of_nat PCF8583_REG_HOURS) val;
            hb = clock_regs_for_read (pcf8583_i2c_start rtc h c') ! PCF8583_REG_HOURS;
            raw = rtc_get_hour_am_pm rtc (active_latch h c') 1
        in am_pm c' \<and> hb AND 0x80 = 0x80 \<and>
           (raw AND 0x20 \<noteq> 0 \<longrightarrow> hb AND 0x20 = 0 \<and> hb AND 0x40 = 0x40)"
    by (simp add: Let_def c'_def)
qed

text \<open>The instance: hours byte 0x92 written, the stub's 12h hour 0x32 read back.\<close>

theorem snapshot_hours_am_pm_witness:
  "length (clock_regs_for_read (pcf8583_init ''rtc'' None)) = PCF8583_REG_SIZE \<and>
   (0x92 :: BYTE) AND 0x80 \<noteq> 0 \<and>
   (let c' = pcf8583_write_register rtc_stub (host_at 1) (pcf8583_init ''rtc'' None)
               (of_nat PCF8583_REG_HOURS) 0x92;
        hb = clock_regs_for_read (pcf8583_i2c_start rtc_stub (host_at 2) c') ! PCF8583_REG_HOURS
    in am_pm c' \<and> hb AND 0x80 = 0x80 \<and> hb AND 0x20 = 0 \<and> hb AND 0x40 = 0x40)"
proof -
  have len: "length (clock_regs_for_read (pcf8583_init ''rtc'' None)) = PCF8583_REG_SIZE"
    by (simp add: pcf8583_init_def)
  have v: "(0x92 :: BYTE) AND 0x80 \<noteq> 0"
    by (simp add: byte_eq_iff bit_simps)
  have raw: "rtc_get_hour_am_pm rtc_stub t 1 AND 0x20 \<noteq> 0" for t
    by (simp add: rtc_stub_def byte_eq_iff bit_simps)
  from snapshot_hours_am_pm [OF len, of rtc_stub "host_at 2" "0x92" "host_at 1"] v raw len
  show ?thesis by (simp add: Let_def)
qed

subsection \<open>Halting and resuming the clock\<close>

lemma write_register_other:
  "\<not> time_or_control addr \<Longrightarrow>
   offset (pcf8583_write_register rtc h c addr val) = offset c \<and>
   clock_halt (pcf8583_write_register rtc h c addr val) = clock_halt c \<and>
   clock_halt_latch (pcf8583_write_register rtc h c addr val) = clock_halt_latch c"
  by (simp add: pcf8583_write_register_def pcf8583_consts Let_def time_or_control_def)

lemma write_registers_other:
  "list_all (\<lambda>(h, addr, val). \<not> time_or_control addr) ws \<Longrightarrow>
   offset (pcf8583_write_registers rtc c ws) = offset c \<and>
   clock_halt (pcf8583_write_registers rtc c ws) = clock_halt c \<and>
   clock_halt_latch (pcf8583_write_registers rtc c ws) = clock_halt_latch c"
proof (induction ws arbitrary: c)
  case Nil
  then show ?case by (simp add: pcf8583_write_registers_def)
next
  case (Cons w ws)
  obtain h addr val where w: "w = (h, addr, val)" by (cases w) auto
  from Cons.prems w have a: "\<not> time_or_control addr"
    and r: "list_all (\<lambda>(h, addr, val). \<not> time_or_control addr) ws" by simp_all
  have "pcf8583_write_registers rtc c (w # ws) =
        pcf8583_write_registers rtc (pcf8583_write_register rtc h c addr val) ws"
    by (simp add: pcf8583_write_registers_def w)
  with Cons.IH [OF r, of "pcf8583_write_register rtc h c addr val"]
    write_register_other [OF a, of rtc h c val]
  show ?case by simp
qed

lemma write_control_halt:
  assumes "\<not> clock_halt c" and "v1 AND 0x80 \<noteq> 0"
  shows "clock_halt (pcf8583_write_register rtc h1 c (of_nat PCF8583_REG_CONTROL) v1) \<and>
         offset (pcf8583_write_register rtc h1 c (of_nat PCF8583_REG_CONTROL) v1) = offset c \<and>
         clock_halt_latch (pcf8583_write_register rtc h1 c (of_nat PCF8583_REG_CONTROL) v1) =
           rtc_get_latch h1 (offset c)"
  using assms by (simp add: pcf8583_write_register_def pcf8583_consts Let_def)

lemma write_control_resume:
  assumes "clock_halt c" and "v2 AND 0x80 = 0"
  shows "\<not> clock_halt (pcf8583_write_register rtc h2 c (of_nat PCF8583_REG_CONTROL) v2) \<and>
         offset (pcf8583_write_register rtc h2 c (of_nat PCF8583_REG_CONTROL) v2) =
           offset c - (rtc_get_latch h2 0 - (clock_halt_latch c - offset c))"
  using assms by (simp add: pcf8583_write_register_def pcf8583_consts Let_def)

text \<open>
  Claim C3. In a running context, write the control register with bit 7 set at host
  reading \<open>h1\<close>; then write any registers other than the control register and the time
  fields, at any host readings; then write the control register with bit 7 clear at
  host reading \<open>h2\<close>. The resume sets the offset to
  \<open>offset - (rtc_get_latch(0) - (clock_halt_latch - offset))\<close>, where the offset is still
  the one from before the halt, and the time the chip exposes right after the resume
  is the time it exposed at the moment of the halt.
\<close>

theorem halt_resume_round_trip:
  assumes "\<not> clock_halt c" and "v1 AND 0x80 \<noteq> 0" and "v2 AND 0x80 = 0"
    and "list_all (\<lambda>(h, addr, val). \<not> time_or_control addr) ws"
  shows "(let c1 = pcf8583_write_register rtc h1 c (of_nat PCF8583_REG_CONTROL) v1;
              c1' = pcf8583_write_registers rtc c1 ws;
              c2 = pcf8583_write_register rtc h2 c1' (of_nat PCF8583_REG_CONTROL) v2
          in clock_halt c1' \<and> \<not> clock_halt c2 \<and> offset c1' = offset c \<and>
             offset c2 = offset c1' - (rtc_get_latch h2 0 - (clock_halt_latch c1' - offset c)) \<and>
             active_latch h2 c2 = active_latch h1 c)"
proof -
  define c1 where "c1 = pcf8583_write_register rtc h1 c (of_nat PCF8583_REG_CONTROL) v1"
  define c1' where "c1' = pcf8583_write_registers rtc c1 ws"
  define c2 where "c2 = pcf8583_write_register rtc h2 c1' (of_nat PCF8583_REG_CONTROL) v2"
  from write_control_halt [OF assms(1,2), of rtc h1]
  have h: "clock_halt c1" "offset c1 = offset c" "clock_halt_latch c1 = rtc_get_latch h1 (offset c)"
    by (simp_all add: c1_def)
  from write_registers_other [OF assms(4), of rtc c1] h
  have m: "clock_halt c1'" "offset c1' = offset c" "clock_halt_latch c1' = rtc_get_latch h1 (offset c)"
    by (simp_all add: c1'_def)
  from write_control_resume [OF m(1) assms(3), of rtc h2]
  have r: "\<not> clock_halt c2"
    "offset c2 = offset c1' - (rtc_get_latch h2 0 - (clock_halt_latch c1' - offset c1'))"
    by (simp_all add: c2_def)
  from r m have "active_latch h2 c2 = rtc_get_latch h1 (offset c)"
    by (simp add: active_latch_def rtc_get_latch_def)
  moreover from assms(1) have "active_latch h1 c = rtc_get_latch h1 (offset c)"
    by (simp add: active_latch_def)
  ultimately have "active_latch h2 c2 = active_latch h1 c" by simp
  with r m show ?thesis
    unfolding Let_def c1_def [symmetric] c1'_def [symmetric] c2_def [symmetric] by simp
qed

theorem halt_resume_round_trip_witness:
  "\<not> clock_halt (pcf8583_init ''rtc'' None) \<and> (0x80 :: BYTE) AND 0x80 \<noteq> 0 \<and> (0x04 :: BYTE) AND 0x80 = 0 \<and>
   list_all (\<lambda>(h, addr, val). \<not> time_or_control addr) [(host_at 1500, 0x10, 0x55), (host_at 1600, 0x08, 0x01)] \<and>
   (let c1 = pcf8583_write_register rtc_stub (host_at 1000) (pcf8583_init ''rtc'' None) (of_nat PCF8583_REG_CONTROL) 0x80;
        c1' = pcf8583_write_registers rtc_stub c1 [(host_at 1500, 0x10, 0x55), (host_at 1600, 0x08, 0x01)];
        c2 = pcf8583_write_register rtc_stub (host_at 2000) c1' (of_nat PCF8583_REG_CONTROL) 0x04
    in active_latch (host_at 2000) c2 = active_latch (host_at 1000) (pcf8583_init ''rtc'' None))"
proof -
  have a: "\<not> clock_halt (pcf8583_init ''rtc'' None)" by (simp add: pcf8583_init_def)
  have b: "(0x80 :: BYTE) AND 0x80 \<noteq> 0" by simp
  have c: "(0x04 :: BYTE) AND 0x80 = 0" by (simp add: byte_eq_iff bit_simps)
  have d: "list_all (\<lambda>(h, addr, val). \<not> time_or_control addr) [(host_at 1500, 0x10, 0x55), (host_at 1600, 0x08, 0x01)]"
    by (simp add: time_or_control_def pcf8583_consts)
  from halt_resume_round_trip [OF a b c d, of rtc_stub "host_at 1000" "host_at 2000"] a b c d
  show ?thesis by (simp add: Let_def)
qed

subsection \<open>Runs of bus calls\<close>

lemma run_Nil: "pcf8583_run rtc c [] = c"
  by (simp add: pcf8583_run_def)

lemma run_Cons: "pcf8583_run rtc c (x # xs) = pcf8583_run rtc (pcf8583_call rtc c x) xs"
  by (simp add: pcf8583_run_def)

lemma run_append: "pcf8583_run rtc c (xs @ ys) = pcf8583_run rtc (pcf8583_run rtc c xs) ys"
  by (simp add: pcf8583_run_def)

text \<open>What a register write leaves alone.\<close>

lemma write_register_bus:
  "state (pcf8583_write_register rtc h c addr val) = state c"
  "reg (pcf8583_write_register rtc h c addr val) = reg c"
  "reg_ptr (pcf8583_write_register rtc h c addr val) = reg_ptr c"
  "bit_n (pcf8583_write_register rtc h c addr val) = bit_n c"
  "sclk_line (pcf8583_write_register rtc h c addr val) = sclk_line c"
  "data_line (pcf8583_write_register rtc h c addr val) = data_line c"
  "device (pcf8583_write_register rtc h c addr val) = device c"
  "clock_regs_for_read (pcf8583_write_register rtc h c addr val) = clock_regs_for_read c"
  "old_ram (pcf8583_write_register rtc h c addr val) = old_ram c"
  "old_clock_regs (pcf8583_write_register rtc h c addr val) = old_clock_regs c"
  "old_offset (pcf8583_write_register rtc h c addr val) = old_offset c"
  by (simp_all add: pcf8583_write_register_def Let_def)

lemma write_register_lengths:
  "length (ram (pcf8583_write_register rtc h c addr val)) = length (ram c)"
  "length (clock_regs (pcf8583_write_register rtc h c addr val)) = length (clock_regs c)"
  by (simp_all add: pcf8583_write_register_def Let_def)

lemma i2c_start_frame:
  "state (pcf8583_i2c_start rtc h c) = state c"
  "reg (pcf8583_i2c_start rtc h c) = reg c"
  "reg_ptr (pcf8583_i2c_start rtc h c) = reg_ptr c"
  "bit_n (pcf8583_i2c_start rtc h c) = bit_n c"
  "sclk_line (pcf8583_i2c_start rtc h c) = sclk_line c"
  "data_line (pcf8583_i2c_start rtc h c) = data_line c"
  "device (pcf8583_i2c_start rtc h c) = device c"
  "ram (pcf8583_i2c_start rtc h c) = ram c"
  "clock_regs (pcf8583_i2c_start rtc h c) = clock_regs c"
  "offset (pcf8583_i2c_start rtc h c) = offset c"
  "clock_halt (pcf8583_i2c_start rtc h c) = clock_halt c"
  "clock_halt_latch (pcf8583_i2c_start rtc h c) = clock_halt_latch c"
  "am_pm (pcf8583_i2c_start rtc h c) = am_pm c"
  "old_ram (pcf8583_i2c_start rtc h c) = old_ram c"
  "old_clock_regs (pcf8583_i2c_start rtc h c) = old_clock_regs c"
  "old_offset (pcf8583_i2c_start rtc h c) = old_offset c"
  by (simp_all add: pcf8583_i2c_start_def Let_def)

lemma i2c_start_length:
  "length (clock_regs_for_read (pcf8583_i2c_start rtc h c)) = length (clock_regs_for_read c)"
  by (simp add: pcf8583_i2c_start_def Let_def pcf8583_consts)

lemmas clk_defs =
  pcf8583_set_clk_line_def pcf8583_next_address_bit_def pcf8583_next_reg_nr_bit_def
  pcf8583_next_read_bit_def pcf8583_next_write_bit_def pcf8583_validate_read_ack_def

subsection \<open>The bit counter stays in range\<close>

lemma bit_n_step: "unat (b :: BYTE) < 8 \<Longrightarrow> b + 1 \<noteq> 8 \<Longrightarrow> unat (b + 1) < 8"
  by unat_arith

lemma set_clk_line_shift_ok:
  "shift_ok c \<Longrightarrow> shift_ok (pcf8583_set_clk_line rtc h c data)"
  by (auto simp add: shift_ok_def clk_defs Let_def write_register_bus bit_n_step
      split: pcf8583_state.splits)

lemma set_data_line_shift_ok:
  "shift_ok c \<Longrightarrow> shift_ok (pcf8583_set_data_line rtc h c data)"
  by (auto simp add: shift_ok_def pcf8583_set_data_line_def Let_def i2c_start_frame
      split: pcf8583_state.splits)

lemma call_shift_ok: "shift_ok c \<Longrightarrow> shift_ok (pcf8583_call rtc c x)"
proof -
  obtain h b where x: "x = (h, b)" by (cases x) auto
  assume "shift_ok c"
  then show ?thesis
    by (cases b) (simp_all add: x set_clk_line_shift_ok set_data_line_shift_ok)
qed

lemma init_shift_ok: "shift_ok (pcf8583_init dev loaded)"
  by (simp add: shift_ok_def pcf8583_init_def split: option.splits prod.splits)

lemma run_shift_ok: "shift_ok c \<Longrightarrow> shift_ok (pcf8583_run rtc c calls)"
  by (induction calls arbitrary: c) (simp_all add: run_Nil run_Cons call_shift_ok)

subsection \<open>The data line as the chip drives it\<close>

lemma output_bit: "drop_bit n ((w :: BYTE) AND 2 ^ n) = of_bool (bit w n)"
  by (rule bit_word_eqI) (auto simp add: bit_simps dest: bit_imp_le_length)

text \<open>
  Claim C4. In every context made by \<open>pcf8583_init\<close> and driven through any bus calls,
  \<open>pcf8583_read_data_line\<close> returns, in state \<open>READ_REGS\<close>, the bit of the shift register
  at position 7 minus the bit counter (which is at most 7 there); it returns 0 in the
  five acknowledge states and 1 in every other state.
\<close>

theorem read_data_line_contract:
  "(let c = pcf8583_run rtc (pcf8583_init dev loaded) calls;
        out = fst (pcf8583_read_data_line c)
    in case state c of
         PCF8583_READ_REGS \<Rightarrow>
           unat (bit_n c) \<le> 7 \<and> out = of_bool (bit (reg c) (7 - unat (bit_n c)))
       | PCF8583_ADDRESS_WRITE_ACK \<Rightarrow> out = 0
       | PCF8583_ADDRESS_READ_ACK \<Rightarrow> out = 0
       | PCF8583_REG_NR_ACK \<Rightarrow> out = 0
       | PCF8583_READ_ACK \<Rightarrow> out = 0
       | PCF8583_WRITE_ACK \<Rightarrow> out = 0
       | _ \<Rightarrow> out = 1)"
proof -
  have "shift_ok (pcf8583_run rtc (pcf8583_init dev loaded) calls)"
    by (rule run_shift_ok [OF init_shift_ok])
  then show ?thesis
    by (simp add: Let_def shift_ok_def pcf8583_read_data_line_def output_bit
        del: drop_bit_and split: pcf8583_state.splits)
qed

theorem read_data_line_contract_witness:
  "fst (pcf8583_read_data_line (pcf8583_run rtc_stub (pcf8583_init ''rtc'' None) [])) = 1"
  using read_data_line_contract [of rtc_stub "''rtc''" None "[]"]
  by (simp add: Let_def run_Nil pcf8583_init_def)

subsection \<open>Array sizes and the baseline\<close>

lemma set_clk_line_sized:
  "ctx_sized c \<Longrightarrow> ctx_sized (pcf8583_set_clk_line rtc h c data)"
  by (auto simp add: ctx_sized_def clk_defs Let_def write_register_bus write_register_lengths
      split: pcf8583_state.splits)

lemma set_data_line_sized:
  "ctx_sized c \<Longrightarrow> ctx_sized (pcf8583_set_data_line rtc h c data)"
  by (auto simp add: ctx_sized_def pcf8583_set_data_line_def Let_def i2c_start_frame i2c_start_length)

lemma call_sized: "ctx_sized c \<Longrightarrow> ctx_sized (pcf8583_call rtc c x)"
proof -
  obtain h b where x: "x = (h, b)" by (cases x) auto
  assume "ctx_sized c"
  then show ?thesis
    by (cases b) (simp_all add: x set_clk_line_sized set_data_line_sized)
qed

lemma run_sized: "ctx_sized c \<Longrightarrow> ctx_sized (pcf8583_run rtc c calls)"
  by (induction calls arbitrary: c) (simp_all add: run_Nil run_Cons call_sized)

lemma init_sized: "loaded_sized loaded \<Longrightarrow> ctx_sized (pcf8583_init dev loaded)"
  by (auto simp add: loaded_sized_def ctx_sized_def pcf8583_init_def split: option.splits)

lemma set_clk_line_baseline: "baseline (pcf8583_set_clk_line rtc h c data) = baseline c"
  by (auto simp add: baseline_def clk_defs Let_def write_register_bus split: pcf8583_state.splits)

lemma set_data_line_baseline: "baseline (pcf8583_set_data_line rtc h c data) = baseline c"
  by (auto simp add: baseline_def pcf8583_set_data_line_def Let_def i2c_start_frame)

lemma call_baseline: "baseline (pcf8583_call rtc c x) = baseline c"
proof -
  obtain h b where x: "x = (h, b)" by (cases x) auto
  show ?thesis
    by (cases b) (simp_all add: x set_clk_line_baseline set_data_line_baseline)
qed

lemma run_baseline: "baseline (pcf8583_run rtc c calls) = baseline c"
  by (induction calls arbitrary: c) (simp_all add: run_Nil run_Cons call_baseline)

lemma init_baseline:
  "loaded_sized loaded \<Longrightarrow>
   baseline (pcf8583_init dev loaded) =
     (ram (pcf8583_init dev loaded), clock_regs (pcf8583_init dev loaded),
      offset (pcf8583_init dev loaded), dev)"
  by (auto simp add: loaded_sized_def baseline_def pcf8583_init_def split: option.splits)

text \<open>
  Claim C8. For a context made by \<open>pcf8583_init\<close> and driven through any bus calls,
  \<open>pcf8583_destroy\<close> calls \<open>rtc_save_context\<close> exactly when saving is requested and the
  RAM block, the 16 registers or the offset differ from what they were at creation
  (which is what the baseline copies hold); the call passes the current RAM, registers
  and offset and the device name. Otherwise it makes no call.
\<close>

theorem destroy_saves_iff_changed:
  assumes "loaded_sized loaded"
  shows "(let c0 = pcf8583_init dev loaded;
              c = pcf8583_run rtc c0 calls
          in pcf8583_destroy c save =
               (if save \<noteq> 0 \<and>
                   (ram c \<noteq> ram c0 \<or> clock_regs c \<noteq> clock_regs c0 \<or> offset c \<noteq> offset c0)
                then Some (ram c, PCF8583_RAM_SIZE, clock_regs c, PCF8583_REG_SIZE, dev, offset c)
                else None))"
proof -
  define c0 where "c0 = pcf8583_init dev loaded"
  define c where "c = pcf8583_run rtc c0 calls"
  from assms have s0: "ctx_sized c0" unfolding c0_def by (rule init_sized)
  then have s: "ctx_sized c" unfolding c_def by (rule run_sized)
  have "baseline c = baseline c0" unfolding c_def by (rule run_baseline)
  with init_baseline [OF assms, of dev]
  have b: "old_ram c = ram c0" "old_clock_regs c = clock_regs c0" "old_offset c = offset c0"
    "device c = dev"
    by (simp_all add: baseline_def c0_def)
  from s b have "pcf8583_destroy c save =
      (if save \<noteq> 0 \<and> (ram c \<noteq> ram c0 \<or> clock_regs c \<noteq> clock_regs c0 \<or> offset c \<noteq> offset c0)
       then Some (ram c, PCF8583_RAM_SIZE, clock_regs c, PCF8583_REG_SIZE, dev, offset c)
       else None)"
    by (simp add: pcf8583_destroy_def ctx_sized_def)
  then show ?thesis
    unfolding Let_def c0_def [symmetric] c_def [symmetric] .
qed

theorem destroy_saves_iff_changed_witness:
  "loaded_sized None \<and>
   pcf8583_destroy (pcf8583_run rtc_stub (pcf8583_init ''rtc'' None) []) 1 = None"
proof -
  have a: "loaded_sized None" by (simp add: loaded_sized_def)
  from destroy_saves_iff_changed [OF a, of "''rtc''" rtc_stub "[]" 1] a
  show ?thesis by (simp add: Let_def run_Nil)
qed

subsection \<open>The register pointer\<close>

lemma byte_succ_mod:
  "unat ((p :: BYTE) + 1) = (unat p + 1) mod (PCF8583_REG_SIZE + PCF8583_RAM_SIZE)"
  by (simp add: pcf8583_consts unat_word_ariths)

lemma sized_index_ok: "ctx_sized c \<Longrightarrow> index_ok c addr"
proof -
  assume s: "ctx_sized c"
  have "unat addr < 256" using unsigned_less [of addr, where ?'a = nat] by simp
  with s show ?thesis
    by (auto simp add: ctx_sized_def index_ok_def pcf8583_consts)
qed

lemma pointer_commit_step:
  "pointer_commit c x \<Longrightarrow>
   reg_ptr (pcf8583_call rtc c x) = reg c OR data_line c \<and>
   state (pcf8583_call rtc c x) = PCF8583_REG_NR_ACK"
proof -
  obtain h b where x: "x = (h, b)" by (cases x) auto
  assume "pointer_commit c x"
  then show ?thesis
    by (cases b) (auto simp add: x pointer_commit_def clk_defs Let_def)
qed

lemma write_commit_step:
  "write_commit c x \<Longrightarrow>
   reg_ptr (pcf8583_call rtc c x) = reg_ptr c + 1 \<and>
   state (pcf8583_call rtc c x) = PCF8583_WRITE_ACK"
proof -
  obtain h b where x: "x = (h, b)" by (cases x) auto
  assume "write_commit c x"
  then show ?thesis
    by (cases b) (auto simp add: x write_commit_def clk_defs Let_def write_register_bus)
qed

lemma read_acked_step:
  "read_acked c x \<Longrightarrow>
   reg_ptr (pcf8583_call rtc c x) = reg_ptr c + 1 \<and>
   state (pcf8583_call rtc c x) = PCF8583_READ_REGS"
proof -
  obtain h b where x: "x = (h, b)" by (cases x) auto
  assume "read_acked c x"
  then show ?thesis
    by (cases b) (auto simp add: x read_acked_def clk_defs Let_def)
qed

text \<open>
  Claim C7. In a context whose arrays have their declared sizes, every bus call leaves
  the register pointer inside the combined address space of \<open>PCF8583_REG_SIZE\<close>
  registers and \<open>PCF8583_RAM_SIZE\<close> bytes of RAM, so that the register access at the
  pointer indexes within the blocks. A pointer commit sets it to the byte clocked in;
  a write commit and an acknowledged read byte advance it by one modulo that address
  space.
\<close>

theorem reg_ptr_wraps:
  assumes "ctx_sized c"
  shows "(let c' = pcf8583_call rtc c x in
            (pointer_commit c x \<longrightarrow> reg_ptr c' = reg c OR data_line c) \<and>
            (write_commit c x \<longrightarrow>
               unat (reg_ptr c') = (unat (reg_ptr c) + 1) mod (PCF8583_REG_SIZE + PCF8583_RAM_SIZE)) \<and>
            (read_acked c x \<longrightarrow>
               unat (reg_ptr c') = (unat (reg_ptr c) + 1) mod (PCF8583_REG_SIZE + PCF8583_RAM_SIZE)) \<and>
            unat (reg_ptr c') < PCF8583_REG_SIZE + PCF8583_RAM_SIZE \<and>
            ctx_sized c' \<and> index_ok c' (reg_ptr c'))"
proof -
  define c' where "c' = pcf8583_call rtc c x"
  from assms have s: "ctx_sized c'" unfolding c'_def by (rule call_sized)
  then have i: "index_ok c' (reg_ptr c')" by (rule sized_index_ok)
  have "unat (reg_ptr c') < 256" using unsigned_less [of "reg_ptr c'", where ?'a = nat] by simp
  then have b: "unat (reg_ptr c') < PCF8583_REG_SIZE + PCF8583_RAM_SIZE"
    by (simp add: pcf8583_consts)
  have p: "pointer_commit c x \<longrightarrow> reg_ptr c' = reg c OR data_line c"
    unfolding c'_def using pointer_commit_step [of c x rtc] by simp
  have w: "write_commit c x \<longrightarrow>
      unat (reg_ptr c') = (unat (reg_ptr c) + 1) mod (PCF8583_REG_SIZE + PCF8583_RAM_SIZE)"
    unfolding c'_def using write_commit_step [of c x rtc] by (simp add: byte_succ_mod)
  have r: "read_acked c x \<longrightarrow>
      unat (reg_ptr c') = (unat (reg_ptr c) + 1) mod (PCF8583_REG_SIZE + PCF8583_RAM_SIZE)"
    unfolding c'_def using read_acked_step [of c x rtc] by (simp add: byte_succ_mod)
  from s i b p w r show ?thesis
    unfolding Let_def c'_def [symmetric] by simp
qed

text \<open>
  Three instances: a pointer commit of the byte 0x21, a write commit with the pointer
  at 0xff, which wraps to 0, and an acknowledged read with the pointer at 0x0f.
\<close>

theorem reg_ptr_wraps_witness:
  "ctx_sized (pcf8583_init ''rtc'' None) \<and>
   pointer_commit
     ((pcf8583_init ''rtc'' None)\<lparr>state := PCF8583_GET_REG_NR, bit_n := 7, reg := 0x20\<rparr>)
     (host_at 1, Set_clk_line 0) \<and>
   reg_ptr (pcf8583_call rtc_stub
     ((pcf8583_init ''rtc'' None)\<lparr>state := PCF8583_GET_REG_NR, bit_n := 7, reg := 0x20\<rparr>)
     (host_at 1, Set_clk_line 0)) = 0x21 \<and>
   write_commit
     ((pcf8583_init ''rtc'' None)\<lparr>state := PCF8583_WRITE_REGS, bit_n := 7, reg_ptr := 0xff\<rparr>)
     (host_at 1, Set_clk_line 0) \<and>
   unat (reg_ptr (pcf8583_call rtc_stub
     ((pcf8583_init ''rtc'' None)\<lparr>state := PCF8583_WRITE_REGS, bit_n := 7, reg_ptr := 0xff\<rparr>)
     (host_at 1, Set_clk_line 0))) = 0 \<and>
   read_acked
     ((pcf8583_init ''rtc'' None)\<lparr>state := PCF8583_READ_ACK, data_line := 0, reg_ptr := 0x0f\<rparr>)
     (host_at 1, Set_clk_line 0) \<and>
   unat (reg_ptr (pcf8583_call rtc_stub
     ((pcf8583_init ''rtc'' None)\<lparr>state := PCF8583_READ_ACK, data_line := 0, reg_ptr := 0x0f\<rparr>)
     (host_at 1, Set_clk_line 0))) = 16"
proof -
  define c0 where "c0 = pcf8583_init ''rtc'' None"
  define cp where "cp = c0\<lparr>state := PCF8583_GET_REG_NR, bit_n := 7, reg := 0x20\<rparr>"
  define cw where "cw = c0\<lparr>state := PCF8583_WRITE_REGS, bit_n := 7, reg_ptr := 0xff\<rparr>"
  define cr where "cr = c0\<lparr>state := PCF8583_READ_ACK, data_line := 0, reg_ptr := 0x0f\<rparr>"
  have s0: "ctx_sized c0"
    unfolding c0_def by (rule init_sized) (simp add: loaded_sized_def)
  then have sp: "ctx_sized cp" and sw: "ctx_sized cw" and sr: "ctx_sized cr"
    by (simp_all add: ctx_sized_def cp_def cw_def cr_def)
  have l: "sclk_line c0 = 1" "data_line c0 = 1" "reg_ptr c0 = 0"
    by (simp_all add: c0_def pcf8583_init_def)
  have p: "pointer_commit cp (host_at 1, Set_clk_line 0)"
    by (simp add: pointer_commit_def cp_def l)
  have w: "write_commit cw (host_at 1, Set_clk_line 0)"
    by (simp add: write_commit_def cw_def l)
  have r: "read_acked cr (host_at 1, Set_clk_line 0)"
    by (simp add: read_acked_def cr_def l)
  have dp: "reg cp OR data_line cp = 0x21"
    by (simp add: cp_def l)
  from reg_ptr_wraps [OF sp, of rtc_stub "(host_at 1, Set_clk_line 0)"] p dp
  have 1: "reg_ptr (pcf8583_call rtc_stub cp (host_at 1, Set_clk_line 0)) = 0x21"
    by (simp add: Let_def)
  from reg_ptr_wraps [OF sw, of rtc_stub "(host_at 1, Set_clk_line 0)"] w
  have 2: "unat (reg_ptr (pcf8583_call rtc_stub cw (host_at 1, Set_clk_line 0))) = 0"
    by (simp add: Let_def cw_def pcf8583_consts)
  from reg_ptr_wraps [OF sr, of rtc_stub "(host_at 1, Set_clk_line 0)"] r
  have 3: "unat (reg_ptr (pcf8583_call rtc_stub cr (host_at 1, Set_clk_line 0))) = 16"
    by (simp add: Let_def cr_def pcf8583_consts)
  from s0 p 1 w 2 r 3 show ?thesis
    unfolding c0_def cp_def cw_def cr_def by simp
qed

subsection \<open>The read snapshot\<close>

lemma call_snapshot:
  "\<not> start_condition c x \<Longrightarrow>
   clock_regs_for_read (pcf8583_call rtc c x) = clock_regs_for_read c"
proof -
  obtain h b where x: "x = (h, b)" by (cases x) auto
  assume "\<not> start_condition c x"
  then show ?thesis
    by (cases b)
      (auto simp add: x clk_defs pcf8583_set_data_line_def Let_def write_register_bus
        split: pcf8583_state.splits)
qed

lemma run_snapshot:
  "no_start rtc c calls \<Longrightarrow>
   clock_regs_for_read (pcf8583_run rtc c calls) = clock_regs_for_read c"
  by (induction calls arbitrary: c) (simp_all add: run_Nil run_Cons call_snapshot)

text \<open>
  Claim C2. Every bus call other than a START condition leaves the 16-byte read
  snapshot as it is. So over any calls without a START condition, made at any readings
  of the host clock, the register read at an address below 16 returns after the calls
  the byte it returned before them.
\<close>

theorem snapshot_frozen:
  assumes "no_start rtc c calls" and "unat addr < PCF8583_REG_SIZE"
  shows "clock_regs_for_read (pcf8583_run rtc c calls) = clock_regs_for_read c \<and>
         pcf8583_read_register (pcf8583_run rtc c calls) addr = pcf8583_read_register c addr"
  using run_snapshot [OF assms(1)] assms(2) by (simp add: pcf8583_read_register_def)

theorem snapshot_frozen_witness:
  "no_start rtc_stub (pcf8583_init ''rtc'' None)
     [(host_at 1, Set_clk_line 0), (host_at 2, Set_data_line 0),
      (host_at 3, Set_clk_line 1), (host_at 9, Set_data_line 1)] \<and>
   unat (4 :: BYTE) < PCF8583_REG_SIZE \<and>
   pcf8583_read_register
     (pcf8583_run rtc_stub (pcf8583_init ''rtc'' None)
        [(host_at 1, Set_clk_line 0), (host_at 2, Set_data_line 0),
         (host_at 3, Set_clk_line 1), (host_at 9, Set_data_line 1)]) 4 =
   pcf8583_read_register (pcf8583_init ''rtc'' None) 4"
proof -
  have a: "no_start rtc_stub (pcf8583_init ''rtc'' None)
     [(host_at 1, Set_clk_line 0), (host_at 2, Set_data_line 0),
      (host_at 3, Set_clk_line 1), (host_at 9, Set_data_line 1)]"
    by (simp add: pcf8583_init_def pcf8583_set_clk_line_def pcf8583_set_data_line_def Let_def)
  have b: "unat (4 :: BYTE) < PCF8583_REG_SIZE"
    by (simp add: PCF8583_REG_SIZE_def)
  from snapshot_frozen [OF a b] a b show ?thesis by simp
qed

subsection \<open>Clocking a byte in\<close>

lemma set_data_line_low:
  "sclk_line c = 0 \<Longrightarrow>
   pcf8583_set_data_line rtc h c (of_bool b) = c\<lparr>data_line := of_bool b\<rparr>"
  by (cases b) (auto simp add: pcf8583_set_data_line_def)

lemma set_clk_line_rise:
  "sclk_line c = 0 \<Longrightarrow> pcf8583_set_clk_line rtc h c 1 = c\<lparr>sclk_line := 1\<rparr>"
  by (simp add: pcf8583_set_clk_line_def)

lemma bit_n_lt7: "unat (b :: BYTE) < 7 \<Longrightarrow> b + 1 \<noteq> 8"
  by unat_arith

lemma set_clk_line_fall_shift:
  assumes "assembling c" and "sclk_line c = 1" and "unat (bit_n c) < 7"
  shows "pcf8583_set_clk_line rtc h c 0 =
         c\<lparr>reg := reg c OR push_bit (7 - unat (bit_n c)) (data_line c),
           bit_n := bit_n c + 1, sclk_line := 0\<rparr>"
  using assms unfolding assembling_def
  by (auto simp add: 
        pcf8583_set_clk_line_def pcf8583_next_address_bit_def pcf8583_next_reg_nr_bit_def
        pcf8583_next_write_bit_def Let_def bit_n_lt7)

lemma map_snd_3:
  "map snd calls = [x, y, z] \<Longrightarrow> \<exists>h1 h2 h3. calls = [(h1, x), (h2, y), (h3, z)]"
  by (auto simp add: map_eq_Cons_conv)

lemma map_snd_2:
  "map snd calls = [x, y] \<Longrightarrow> \<exists>h1 h2. calls = [(h1, x), (h2, y)]"
  by (auto simp add: map_eq_Cons_conv)

lemma send_bit_shift_in:
  assumes "map snd calls = send_bit b" and "assembling c" and "sclk_line c = 0"
    and "unat (bit_n c) < 7"
  shows "pcf8583_run rtc c calls = shift_in b c"
proof -
  from assms(1) have "\<exists>h1 h2 h3.
      calls = [(h1, Set_data_line (of_bool b)), (h2, Set_clk_line 1), (h3, Set_clk_line 0)]"
    unfolding send_bit_def by (rule map_snd_3)
  then obtain h1 h2 h3 where
    calls: "calls = [(h1, Set_data_line (of_bool b)), (h2, Set_clk_line 1), (h3, Set_clk_line 0)]"
    by blast
  from assms(2,3,4) show ?thesis
    unfolding calls
    by (simp add: run_Cons run_Nil set_data_line_low set_clk_line_rise set_clk_line_fall_shift
        shift_in_def assembling_def)
qed

lemma shift_in_fields:
  "state (shift_in b c) = state c"
  "sclk_line (shift_in b c) = 0"
  "bit_n (shift_in b c) = bit_n c + 1"
  "assembling (shift_in b c) = assembling c"
  by (simp_all add: shift_in_def assembling_def)

lemma bit_n_succ: "unat (b :: BYTE) < 7 \<Longrightarrow> unat (b + 1) = Suc (unat b)"
  by (simp add: unat_word_ariths)

lemma run_send_bits:
  assumes "map snd calls = concat (map send_bit bs) @ rest" and "assembling c"
    and "sclk_line c = 0" and "unat (bit_n c) + length bs \<le> 7"
  shows "pcf8583_run rtc c calls = pcf8583_run rtc (shift_ins bs c) (drop (3 * length bs) calls)"
  using assms
proof (induction bs arbitrary: c calls)
  case Nil
  then show ?case by simp
next
  case (Cons b bs)
  have l: "length (send_bit b) = 3" by (simp add: send_bit_def)
  from Cons.prems(1)
  have m: "map snd calls = send_bit b @ (concat (map send_bit bs) @ rest)" by simp
  from l have "take 3 (map snd calls) = send_bit b" unfolding m by simp
  then have t: "map snd (take 3 calls) = send_bit b" by (simp add: take_map)
  from l have "drop 3 (map snd calls) = concat (map send_bit bs) @ rest" unfolding m by simp
  then have d: "map snd (drop 3 calls) = concat (map send_bit bs) @ rest" by (simp add: drop_map)
  from Cons.prems(4) have lt: "unat (bit_n c) < 7" by simp
  have "pcf8583_run rtc c calls = pcf8583_run rtc (pcf8583_run rtc c (take 3 calls)) (drop 3 calls)"
    using run_append [of rtc c "take 3 calls" "drop 3 calls"] by simp
  also have "pcf8583_run rtc c (take 3 calls) = shift_in b c"
    using t Cons.prems(2,3) lt by (rule send_bit_shift_in)
  also have "pcf8583_run rtc (shift_in b c) (drop 3 calls) =
      pcf8583_run rtc (shift_ins bs (shift_in b c)) (drop (3 * length bs) (drop 3 calls))"
    using d Cons.prems(2,4) lt
    by (intro Cons.IH) (simp_all add: shift_in_fields bit_n_succ)
  finally show ?case by (simp add: add.commute)
qed

lemma byte_top_bits:
  "push_bit 7 (of_bool (bit w 7)) OR push_bit 6 (of_bool (bit w 6)) OR
   push_bit 5 (of_bool (bit w 5)) OR push_bit 4 (of_bool (bit w 4)) OR
   push_bit 3 (of_bool (bit w 3)) OR push_bit 2 (of_bool (bit w 2)) OR
   push_bit 1 (of_bool (bit w 1)) = (w :: BYTE) AND 0xfe"
  by (simp add: byte_eq_iff bit_simps)

lemma byte_last_bit: "((w :: BYTE) AND 0xfe) OR of_bool (bit w 0) = w"
  by (simp add: byte_eq_iff bit_simps)

lemma shift_ins_seven:
  assumes "bit_n c = 0" and "reg c = 0"
  shows "shift_ins [bit w 7, bit w 6, bit w 5, bit w 4, bit w 3, bit w 2, bit w 1] c =
         c\<lparr>data_line := of_bool (bit w 1), sclk_line := 0, reg := w AND 0xfe, bit_n := 7\<rparr>"
proof -
  have "shift_ins [bit w 7, bit w 6, bit w 5, bit w 4, bit w 3, bit w 2, bit w 1] c =
        c\<lparr>data_line := of_bool (bit w 1), sclk_line := 0,
          reg := push_bit 7 (of_bool (bit w 7)) OR push_bit 6 (of_bool (bit w 6)) OR
            push_bit 5 (of_bool (bit w 5)) OR push_bit 4 (of_bool (bit w 4)) OR
            push_bit 3 (of_bool (bit w 3)) OR push_bit 2 (of_bool (bit w 2)) OR
            push_bit 1 (of_bool (bit w 1)),
          bit_n := 7\<rparr>"
    using assms by (simp add: shift_in_def or.assoc)
  then show ?thesis by (simp only: byte_top_bits)
qed

lemma length_send_bit: "length (send_bit b) = 3"
  by (simp add: send_bit_def)

lemma length_send_byte: "length (send_byte w) = 24"
  by (simp add: send_byte_def length_send_bit)

lemma send_byte_split:
  "send_byte w =
     concat (map send_bit [bit w 7, bit w 6, bit w 5, bit w 4, bit w 3, bit w 2, bit w 1]) @
     send_bit (bit w 0)"
  by (simp add: send_byte_def)

text \<open>
  The first seven bits of a byte, clocked into a state that assembles one: what is left
  of the calls is the eighth bit.
\<close>

lemma run_seven_bits:
  assumes "map snd calls = send_byte w" and "assembling c" and "sclk_line c = 0"
    and "bit_n c = 0" and "reg c = 0"
  shows "pcf8583_run rtc c calls =
         pcf8583_run rtc
           (c\<lparr>data_line := of_bool (bit w 1), sclk_line := 0, reg := w AND 0xfe, bit_n := 7\<rparr>)
           (drop 21 calls)"
    and "map snd (drop 21 calls) = send_bit (bit w 0)"
proof -
  let ?bs = "[bit w 7, bit w 6, bit w 5, bit w 4, bit w 3, bit w 2, bit w 1]"
  from assms(1) have m: "map snd calls = concat (map send_bit ?bs) @ send_bit (bit w 0)"
    by (simp only: send_byte_split)
  from assms(4) have "unat (bit_n c) + length ?bs \<le> 7" by simp
  with m assms(2,3)
  have "pcf8583_run rtc c calls = pcf8583_run rtc (shift_ins ?bs c) (drop (3 * length ?bs) calls)"
    by (rule run_send_bits)
  with assms(4,5) show "pcf8583_run rtc c calls =
         pcf8583_run rtc
           (c\<lparr>data_line := of_bool (bit w 1), sclk_line := 0, reg := w AND 0xfe, bit_n := 7\<rparr>)
           (drop 21 calls)"
    by (simp only: shift_ins_seven) simp
  have "length (concat (map send_bit ?bs)) = 21" by (simp add: length_send_bit)
  then have "drop 21 (map snd calls) = send_bit (bit w 0)" unfolding m by simp
  then show "map snd (drop 21 calls) = send_bit (bit w 0)" by (simp add: drop_map)
qed

lemma last_bit_calls:
  assumes "map snd calls = send_bit b"
  shows "calls = [(fst (calls ! 0), Set_data_line (of_bool b)), (fst (calls ! 1), Set_clk_line 1),
                  (fst (calls ! 2), Set_clk_line 0)]"
proof -
  from assms have "\<exists>h1 h2 h3.
      calls = [(h1, Set_data_line (of_bool b)), (h2, Set_clk_line 1), (h3, Set_clk_line 0)]"
    unfolding send_bit_def by (rule map_snd_3)
  then show ?thesis by auto
qed

lemma last_bit_address:
  assumes "map snd calls = send_bit (bit w 0)" and "state c = PCF8583_GET_ADDRESS"
    and "sclk_line c = 0" and "bit_n c = 7" and "reg c = w AND 0xfe"
  shows "pcf8583_run rtc c calls =
         c\<lparr>data_line := of_bool (bit w 0), sclk_line := 0, reg := w, bit_n := 8,
           state := (if w = 0xa0 then PCF8583_ADDRESS_WRITE_ACK
                     else if w = 0xa1 then PCF8583_ADDRESS_READ_ACK else PCF8583_IDLE)\<rparr>"
  using assms(2-5)
  by (subst last_bit_calls [OF assms(1)])
    (simp add: run_Cons run_Nil set_data_line_low set_clk_line_rise pcf8583_set_clk_line_def
      pcf8583_next_address_bit_def Let_def byte_last_bit)

lemma last_bit_reg_nr:
  assumes "map snd calls = send_bit (bit w 0)" and "state c = PCF8583_GET_REG_NR"
    and "sclk_line c = 0" and "bit_n c = 7" and "reg c = w AND 0xfe"
  shows "pcf8583_run rtc c calls =
         c\<lparr>data_line := of_bool (bit w 0), sclk_line := 0, reg := w, bit_n := 8,
           state := PCF8583_REG_NR_ACK, reg_ptr := w\<rparr>"
  using assms(2-5)
  by (subst last_bit_calls [OF assms(1)])
    (simp add: run_Cons run_Nil set_data_line_low set_clk_line_rise pcf8583_set_clk_line_def
      pcf8583_next_reg_nr_bit_def Let_def byte_last_bit)

lemma last_bit_write:
  assumes "map snd calls = send_bit (bit w 0)" and "state c = PCF8583_WRITE_REGS"
    and "sclk_line c = 0" and "bit_n c = 7" and "reg c = w AND 0xfe"
  shows "pcf8583_run rtc c calls =
         (pcf8583_write_register rtc (fst (calls ! 2))
            (c\<lparr>data_line := of_bool (bit w 0), sclk_line := 1, reg := w, bit_n := 8\<rparr>)
            (reg_ptr c) w)
         \<lparr>state := PCF8583_WRITE_ACK, reg_ptr := reg_ptr c + 1, sclk_line := 0\<rparr>"
  using assms(2-5)
  by (subst last_bit_calls [OF assms(1)])
    (simp add: run_Cons run_Nil set_data_line_low set_clk_line_rise pcf8583_set_clk_line_def
      pcf8583_next_write_bit_def Let_def byte_last_bit write_register_bus)

lemma recv_address:
  assumes "map snd calls = send_byte w" and "state c = PCF8583_GET_ADDRESS"
    and "sclk_line c = 0" and "bit_n c = 0" and "reg c = 0"
  shows "pcf8583_run rtc c calls =
         c\<lparr>data_line := of_bool (bit w 0), sclk_line := 0, reg := w, bit_n := 8,
           state := (if w = 0xa0 then PCF8583_ADDRESS_WRITE_ACK
                     else if w = 0xa1 then PCF8583_ADDRESS_READ_ACK else PCF8583_IDLE)\<rparr>"
proof -
  let ?c7 = "c\<lparr>data_line := of_bool (bit w 1), sclk_line := 0, reg := w AND 0xfe, bit_n := 7\<rparr>"
  from assms(2) have a: "assembling c" by (simp add: assembling_def)
  note seven = run_seven_bits(1) [OF assms(1) a assms(3,4,5), of rtc]
    run_seven_bits(2) [OF assms(1) a assms(3,4,5)]
  from assms(2) have "pcf8583_run rtc ?c7 (drop 21 calls) =
      ?c7\<lparr>data_line := of_bool (bit w 0), sclk_line := 0, reg := w, bit_n := 8,
           state := (if w = 0xa0 then PCF8583_ADDRESS_WRITE_ACK
                     else if w = 0xa1 then PCF8583_ADDRESS_READ_ACK else PCF8583_IDLE)\<rparr>"
    by (intro last_bit_address [OF seven(2)]) simp_all
  with seven(1) show ?thesis by simp
qed

lemma recv_reg_nr:
  assumes "map snd calls = send_byte w" and "state c = PCF8583_GET_REG_NR"
    and "sclk_line c = 0" and "bit_n c = 0" and "reg c = 0"
  shows "pcf8583_run rtc c calls =
         c\<lparr>data_line := of_bool (bit w 0), sclk_line := 0, reg := w, bit_n := 8,
           state := PCF8583_REG_NR_ACK, reg_ptr := w\<rparr>"
proof -
  let ?c7 = "c\<lparr>data_line := of_bool (bit w 1), sclk_line := 0, reg := w AND 0xfe, bit_n := 7\<rparr>"
  from assms(2) have a: "assembling c" by (simp add: assembling_def)
  note seven = run_seven_bits(1) [OF assms(1) a assms(3,4,5), of rtc]
    run_seven_bits(2) [OF assms(1) a assms(3,4,5)]
  from assms(2) have "pcf8583_run rtc ?c7 (drop 21 calls) =
      ?c7\<lparr>data_line := of_bool (bit w 0), sclk_line := 0, reg := w, bit_n := 8,
           state := PCF8583_REG_NR_ACK, reg_ptr := w\<rparr>"
    by (intro last_bit_reg_nr [OF seven(2)]) simp_all
  with seven(1) show ?thesis by simp
qed

lemma recv_data:
  assumes "map snd calls = send_byte w" and "state c = PCF8583_WRITE_REGS"
    and "sclk_line c = 0" and "bit_n c = 0" and "reg c = 0"
  shows "pcf8583_run rtc c calls =
         (pcf8583_write_register rtc (fst (calls ! 23))
            (c\<lparr>data_line := of_bool (bit w 0), sclk_line := 1, reg := w, bit_n := 8\<rparr>)
            (reg_ptr c) w)
         \<lparr>state := PCF8583_WRITE_ACK, reg_ptr := reg_ptr c + 1, sclk_line := 0\<rparr>"
proof -
  let ?c7 = "c\<lparr>data_line := of_bool (bit w 1), sclk_line := 0, reg := w AND 0xfe, bit_n := 7\<rparr>"
  from assms(2) have a: "assembling c" by (simp add: assembling_def)
  note seven = run_seven_bits(1) [OF assms(1) a assms(3,4,5), of rtc]
    run_seven_bits(2) [OF assms(1) a assms(3,4,5)]
  from assms(1) have "length calls = 24"
    using length_map [of snd calls] by (simp add: length_send_byte)
  then have h: "fst (drop 21 calls ! 2) = fst (calls ! 23)" by simp
  from assms(2) have "pcf8583_run rtc ?c7 (drop 21 calls) =
      (pcf8583_write_register rtc (fst (drop 21 calls ! 2))
         (?c7\<lparr>data_line := of_bool (bit w 0), sclk_line := 1, reg := w, bit_n := 8\<rparr>)
         (reg_ptr ?c7) w)
      \<lparr>state := PCF8583_WRITE_ACK, reg_ptr := reg_ptr ?c7 + 1, sclk_line := 0\<rparr>"
    by (intro last_bit_write [OF seven(2)]) simp_all
  with seven(1) h show ?thesis by simp
qed

lemma run_start:
  assumes "map snd calls = start_lines" and "sclk_line c = 1" and "data_line c = 1"
  shows "pcf8583_run rtc c calls =
         (pcf8583_i2c_start rtc (fst (calls ! 0)) c)
         \<lparr>state := PCF8583_GET_ADDRESS, reg := 0, bit_n := 0, data_line := 0, sclk_line := 0\<rparr>"
proof -
  from assms(1) have "\<exists>h1 h2. calls = [(h1, Set_data_line 0), (h2, Set_clk_line 0)]"
    unfolding start_lines_def by (rule map_snd_2)
  then obtain h1 h2 where calls: "calls = [(h1, Set_data_line 0), (h2, Set_clk_line 0)]"
    by blast
  from assms(2,3) show ?thesis
    unfolding calls
    by (simp add: run_Cons run_Nil pcf8583_set_data_line_def pcf8583_set_clk_line_def Let_def
        i2c_start_frame)
qed

lemma run_clock_pulse:
  assumes "map snd calls = clock_pulse" and "sclk_line c = 0"
  shows "state c = PCF8583_ADDRESS_WRITE_ACK \<Longrightarrow>
         pcf8583_run rtc c calls =
         c\<lparr>state := PCF8583_GET_REG_NR, reg := 0, bit_n := 0, sclk_line := 0\<rparr>"
    and "state c = PCF8583_REG_NR_ACK \<or> state c = PCF8583_WRITE_ACK \<Longrightarrow>
         pcf8583_run rtc c calls =
         c\<lparr>state := PCF8583_WRITE_REGS, reg := 0, bit_n := 0, sclk_line := 0\<rparr>"
proof -
  from assms(1) have "\<exists>h1 h2. calls = [(h1, Set_clk_line 1), (h2, Set_clk_line 0)]"
    unfolding clock_pulse_def by (rule map_snd_2)
  then obtain h1 h2 where calls: "calls = [(h1, Set_clk_line 1), (h2, Set_clk_line 0)]"
    by blast
  from assms(2) show "state c = PCF8583_ADDRESS_WRITE_ACK \<Longrightarrow>
         pcf8583_run rtc c calls =
         c\<lparr>state := PCF8583_GET_REG_NR, reg := 0, bit_n := 0, sclk_line := 0\<rparr>"
    unfolding calls
    by (simp add: run_Cons run_Nil set_clk_line_rise pcf8583_set_clk_line_def Let_def)
  from assms(2) show "state c = PCF8583_REG_NR_ACK \<or> state c = PCF8583_WRITE_ACK \<Longrightarrow>
         pcf8583_run rtc c calls =
         c\<lparr>state := PCF8583_WRITE_REGS, reg := 0, bit_n := 0, sclk_line := 0\<rparr>"
    unfolding calls
    by (auto simp add: run_Cons run_Nil set_clk_line_rise pcf8583_set_clk_line_def Let_def)
qed

lemma run_split:
  assumes "map snd calls = xs @ ys"
  shows "pcf8583_run rtc c calls =
         pcf8583_run rtc (pcf8583_run rtc c (take (length xs) calls)) (drop (length xs) calls)"
    and "map snd (take (length xs) calls) = xs"
    and "map snd (drop (length xs) calls) = ys"
proof -
  show "pcf8583_run rtc c calls =
         pcf8583_run rtc (pcf8583_run rtc c (take (length xs) calls)) (drop (length xs) calls)"
    using run_append [of rtc c "take (length xs) calls" "drop (length xs) calls"] by simp
  have "take (length xs) (map snd calls) = xs" unfolding assms by simp
  then show "map snd (take (length xs) calls) = xs" by (simp add: take_map)
  have "drop (length xs) (map snd calls) = ys" unfolding assms by simp
  then show "map snd (drop (length xs) calls) = ys" by (simp add: drop_map)
qed

lemma write_register_stored:
  "stored c1 = stored c2 \<Longrightarrow>
   stored (pcf8583_write_register rtc h c1 addr val) =
   stored (pcf8583_write_register rtc h c2 addr val)"
  by (simp add: stored_def pcf8583_write_register_def Let_def)

subsection \<open>The write transaction\<close>

lemma stored_bus_updates:
  "stored (c\<lparr>state := s\<rparr>) = stored c"
  "stored (c\<lparr>reg := r\<rparr>) = stored c"
  "stored (c\<lparr>reg_ptr := p\<rparr>) = stored c"
  "stored (c\<lparr>bit_n := n\<rparr>) = stored c"
  "stored (c\<lparr>sclk_line := l\<rparr>) = stored c"
  "stored (c\<lparr>data_line := d\<rparr>) = stored c"
  "stored (pcf8583_i2c_start rtc h c) = stored c"
  by (simp_all add: stored_def i2c_start_frame)

lemma a0_is_write: "(0xa0 :: BYTE) \<noteq> 0xa1" "bit (0xa0 :: BYTE) 0 = False"
  by simp_all

lemma write_register_verbatim:
  assumes "ctx_sized c"
    and "unat addr = PCF8583_REG_CONTROL \<or> PCF8583_REG_ALARM_CONTROL \<le> unat addr"
  shows "cell (pcf8583_write_register rtc h c addr val) addr = val"
proof -
  have "unat addr < 256" using unsigned_less [of addr, where ?'a = nat] by simp
  with assms show ?thesis
    by (auto simp add: cell_def ctx_sized_def pcf8583_write_register_def pcf8583_consts Let_def)
qed

lemma stored_cell: "stored c1 = stored c2 \<Longrightarrow> cell c1 addr = cell c2 addr"
  by (simp add: stored_def cell_def)

text \<open>
  Claim C1. On an idle bus (both lines high), for every address \<open>P\<close> and byte \<open>V\<close>, the
  calls of a complete write transaction (the START condition, the address byte 0xA0,
  the acknowledge clock, the pointer byte \<open>P\<close>, the acknowledge clock, the data byte \<open>V\<close>
  on eight clock pulses, the acknowledge clock), made at any readings of the host
  clock, leave the stored state of the chip as the register write of \<open>V\<close> at \<open>P\<close> leaves
  it, at the host reading of the eighth falling edge of the data byte (call 77), and
  leave the register pointer at \<open>P + 1\<close> modulo the combined address space. For the
  control register, the alarm registers and the RAM, that write stores \<open>V\<close> in the cell
  at \<open>P\<close>.
\<close>

theorem write_transaction_commits:
  assumes "map snd calls = write_transaction P V" and "sclk_line c = 1" and "data_line c = 1"
  shows "(let c' = pcf8583_run rtc c calls in
            stored c' = stored (pcf8583_write_register rtc (fst (calls ! 77)) c P V) \<and>
            reg_ptr c' = P + 1 \<and>
            unat (reg_ptr c') = (unat P + 1) mod (PCF8583_REG_SIZE + PCF8583_RAM_SIZE) \<and>
            state c' = PCF8583_WRITE_REGS \<and>
            (ctx_sized c \<and>
             (unat P = PCF8583_REG_CONTROL \<or> PCF8583_REG_ALARM_CONTROL \<le> unat P) \<longrightarrow>
             cell c' P = V))"
proof -
  have len: "length calls = 80"
    using length_map [of snd calls] unfolding assms(1)
    by (simp add: write_transaction_def start_lines_def clock_pulse_def length_send_byte)
  have l2: "length start_lines = 2" "length clock_pulse = 2"
    by (simp_all add: start_lines_def clock_pulse_def)
  define r1 where "r1 = drop 2 calls"
  define r2 where "r2 = drop 24 r1"
  define r3 where "r3 = drop 2 r2"
  define r4 where "r4 = drop 24 r3"
  define r5 where "r5 = drop 2 r4"
  define r6 where "r6 = drop 24 r5"
  \<comment> \<open>the START condition\<close>
  from assms(1) have m0: "map snd calls =
      start_lines @ (send_byte 0xa0 @ clock_pulse @ send_byte P @ clock_pulse @ send_byte V @ clock_pulse)"
    by (simp add: write_transaction_def)
  note s0 = run_split [OF m0, unfolded l2, folded r1_def]
  define c1 where "c1 = pcf8583_run rtc c (take 2 calls)"
  have c1: "c1 = (pcf8583_i2c_start rtc (fst (take 2 calls ! 0)) c)
      \<lparr>state := PCF8583_GET_ADDRESS, reg := 0, bit_n := 0, data_line := 0, sclk_line := 0\<rparr>"
    unfolding c1_def using s0(2) assms(2,3) by (rule run_start)
  \<comment> \<open>the address byte\<close>
  from s0(3) have m1: "map snd r1 =
      send_byte 0xa0 @ (clock_pulse @ send_byte P @ clock_pulse @ send_byte V @ clock_pulse)" .
  note s1 = run_split [OF m1, unfolded length_send_byte, folded r2_def]
  define c2 where "c2 = pcf8583_run rtc c1 (take 24 r1)"
  have "c2 = c1\<lparr>data_line := of_bool (bit (0xa0 :: BYTE) 0), sclk_line := 0, reg := 0xa0, bit_n := 8,
           state := (if (0xa0 :: BYTE) = 0xa0 then PCF8583_ADDRESS_WRITE_ACK
                     else if (0xa0 :: BYTE) = 0xa1 then PCF8583_ADDRESS_READ_ACK else PCF8583_IDLE)\<rparr>"
    unfolding c2_def using s1(2) by (rule recv_address) (simp_all add: c1)
  then have c2: "c2 = c1\<lparr>data_line := 0, sclk_line := 0, reg := 0xa0, bit_n := 8,
      state := PCF8583_ADDRESS_WRITE_ACK\<rparr>"
    by simp
  \<comment> \<open>the acknowledge\<close>
  from s1(3) have m2: "map snd r2 =
      clock_pulse @ (send_byte P @ clock_pulse @ send_byte V @ clock_pulse)" .
  note s2 = run_split [OF m2, unfolded l2, folded r3_def]
  define c3 where "c3 = pcf8583_run rtc c2 (take 2 r2)"
  have c3: "c3 = c2\<lparr>state := PCF8583_GET_REG_NR, reg := 0, bit_n := 0, sclk_line := 0\<rparr>"
    unfolding c3_def using s2(2) by (rule run_clock_pulse(1)) (simp_all add: c2)
  \<comment> \<open>the pointer byte\<close>
  from s2(3) have m3: "map snd r3 = send_byte P @ (clock_pulse @ send_byte V @ clock_pulse)" .
  note s3 = run_split [OF m3, unfolded length_send_byte, folded r4_def]
  define c4 where "c4 = pcf8583_run rtc c3 (take 24 r3)"
  have c4: "c4 = c3\<lparr>data_line := of_bool (bit P 0), sclk_line := 0, reg := P, bit_n := 8,
      state := PCF8583_REG_NR_ACK, reg_ptr := P\<rparr>"
    unfolding c4_def using s3(2) by (rule recv_reg_nr) (simp_all add: c3)
  \<comment> \<open>the acknowledge\<close>
  from s3(3) have m4: "map snd r4 = clock_pulse @ (send_byte V @ clock_pulse)" .
  note s4 = run_split [OF m4, unfolded l2, folded r5_def]
  define c5 where "c5 = pcf8583_run rtc c4 (take 2 r4)"
  have c5: "c5 = c4\<lparr>state := PCF8583_WRITE_REGS, reg := 0, bit_n := 0, sclk_line := 0\<rparr>"
    unfolding c5_def using s4(2) by (rule run_clock_pulse(2)) (simp_all add: c4)
  \<comment> \<open>the data byte\<close>
  from s4(3) have m5: "map snd r5 = send_byte V @ clock_pulse" .
  note s5 = run_split [OF m5, unfolded length_send_byte, folded r6_def]
  define c6 where "c6 = pcf8583_run rtc c5 (take 24 r5)"
  have host: "fst (take 24 r5 ! 23) = fst (calls ! 77)"
    using len by (simp add: r5_def r4_def r3_def r2_def r1_def)
  have c6: "c6 = (pcf8583_write_register rtc (fst (calls ! 77))
            (c5\<lparr>data_line := of_bool (bit V 0), sclk_line := 1, reg := V, bit_n := 8\<rparr>)
            (reg_ptr c5) V)
         \<lparr>state := PCF8583_WRITE_ACK, reg_ptr := reg_ptr c5 + 1, sclk_line := 0\<rparr>"
    unfolding c6_def host [symmetric] using s5(2) by (rule recv_data) (simp_all add: c5)
  \<comment> \<open>the acknowledge\<close>
  define c7 where "c7 = pcf8583_run rtc c6 r6"
  have c7: "c7 = c6\<lparr>state := PCF8583_WRITE_REGS, reg := 0, bit_n := 0, sclk_line := 0\<rparr>"
    unfolding c7_def using s5(3)
    by (rule run_clock_pulse(2)) (simp_all add: c6 write_register_bus)
  \<comment> \<open>all of it\<close>
  have run: "pcf8583_run rtc c calls = c7"
    unfolding c7_def c6_def c5_def c4_def c3_def c2_def c1_def
    by (simp only: s0(1) s1(1) s2(1) s3(1) s4(1) s5(1))
  have p5: "reg_ptr c5 = P" by (simp add: c5 c4)
  have "stored (c5\<lparr>data_line := of_bool (bit V 0), sclk_line := 1, reg := V, bit_n := 8\<rparr>) = stored c"
    by (simp add: c5 c4 c3 c2 c1 stored_bus_updates)
  then have "stored (pcf8583_write_register rtc (fst (calls ! 77))
      (c5\<lparr>data_line := of_bool (bit V 0), sclk_line := 1, reg := V, bit_n := 8\<rparr>) P V) =
      stored (pcf8583_write_register rtc (fst (calls ! 77)) c P V)"
    by (rule write_register_stored)
  then have st: "stored c7 = stored (pcf8583_write_register rtc (fst (calls ! 77)) c P V)"
    by (simp only: c7 c6 p5 stored_bus_updates)
  have rp: "reg_ptr c7 = P + 1" by (simp add: c7 c6 p5)
  have ws: "state c7 = PCF8583_WRITE_REGS" by (simp add: c7)
  have "cell c7 P = V"
    if "ctx_sized c" and "unat P = PCF8583_REG_CONTROL \<or> PCF8583_REG_ALARM_CONTROL \<le> unat P"
    using stored_cell [OF st, of P] write_register_verbatim [OF that, of rtc "fst (calls ! 77)" V]
    by simp
  with st rp ws show ?thesis
    unfolding Let_def run by (simp add: byte_succ_mod)
qed

theorem write_transaction_commits_witness:
  "map snd (map (Pair (host_at 1000)) (write_transaction 0x20 0x5a)) = write_transaction 0x20 0x5a \<and>
   sclk_line (pcf8583_init ''rtc'' None) = 1 \<and> data_line (pcf8583_init ''rtc'' None) = 1 \<and>
   ctx_sized (pcf8583_init ''rtc'' None) \<and> PCF8583_REG_ALARM_CONTROL \<le> unat (0x20 :: BYTE) \<and>
   cell (pcf8583_run rtc_stub (pcf8583_init ''rtc'' None)
           (map (Pair (host_at 1000)) (write_transaction 0x20 0x5a))) 0x20 = 0x5a \<and>
   reg_ptr (pcf8583_run rtc_stub (pcf8583_init ''rtc'' None)
           (map (Pair (host_at 1000)) (write_transaction 0x20 0x5a))) = 0x21"
proof -
  have a: "map snd (map (Pair (host_at 1000)) (write_transaction 0x20 0x5a)) =
      write_transaction 0x20 0x5a"
    by (simp add: comp_def)
  have b: "sclk_line (pcf8583_init ''rtc'' None) = 1" "data_line (pcf8583_init ''rtc'' None) = 1"
    by (simp_all add: pcf8583_init_def)
  have c: "ctx_sized (pcf8583_init ''rtc'' None)"
    by (rule init_sized) (simp add: loaded_sized_def)
  have d: "PCF8583_REG_ALARM_CONTROL \<le> unat (0x20 :: BYTE)"
    by (simp add: PCF8583_REG_ALARM_CONTROL_def)
  from write_transaction_commits [OF a b, of rtc_stub] a b c d
  show ?thesis by (simp add: Let_def)
qed

subsection \<open>Sequences that commit nothing\<close>

lemma bit_n_eq_7: "((b :: BYTE) + 1 = 8) = (b = 7)"
proof
  assume "b + 1 = 8"
  then have "b + 1 = 7 + 1" by simp
  then show "b = 7" by (simp only: add_right_cancel)
qed simp

lemma call_no_write_commit:
  assumes "\<not> write_commit c x"
  shows "ram (pcf8583_call rtc c x) = ram c \<and> clock_regs (pcf8583_call rtc c x) = clock_regs c"
proof -
  obtain h b where x: "x = (h, b)" by (cases x) auto
  from assms show ?thesis
    by (cases b)
      (auto simp add: x write_commit_def clk_defs pcf8583_set_data_line_def Let_def bit_n_eq_7
        i2c_start_frame split: pcf8583_state.splits)
qed

lemma run_no_write_commit:
  "no_write_commit rtc c calls \<Longrightarrow>
   ram (pcf8583_run rtc c calls) = ram c \<and> clock_regs (pcf8583_run rtc c calls) = clock_regs c"
  by (induction calls arbitrary: c) (simp_all add: run_Nil run_Cons call_no_write_commit)

lemma call_idle:
  assumes "state c = PCF8583_IDLE" and "\<not> start_condition c x"
  shows "state (pcf8583_call rtc c x) = PCF8583_IDLE"
proof -
  obtain h b where x: "x = (h, b)" by (cases x) auto
  from assms show ?thesis
    by (cases b) (auto simp add: x pcf8583_set_clk_line_def pcf8583_set_data_line_def Let_def)
qed

lemma run_idle:
  "state c = PCF8583_IDLE \<Longrightarrow> no_start rtc c calls \<Longrightarrow>
   state (pcf8583_run rtc c calls) = PCF8583_IDLE"
  by (induction calls arbitrary: c) (simp_all add: run_Nil run_Cons call_idle)

lemma run_unrecognized_address:
  assumes "map snd calls = start_lines @ send_byte a" and "sclk_line c = 1" and "data_line c = 1"
    and "a \<noteq> 0xa0" and "a \<noteq> 0xa1"
  shows "state (pcf8583_run rtc c calls) = PCF8583_IDLE \<and>
         ram (pcf8583_run rtc c calls) = ram c \<and>
         clock_regs (pcf8583_run rtc c calls) = clock_regs c"
proof -
  have l2: "length start_lines = 2" by (simp add: start_lines_def)
  note s0 = run_split(1) [OF assms(1), unfolded l2, of rtc c]
    run_split(2,3) [OF assms(1), unfolded l2]
  define c1 where "c1 = pcf8583_run rtc c (take 2 calls)"
  have c1: "c1 = (pcf8583_i2c_start rtc (fst (take 2 calls ! 0)) c)
      \<lparr>state := PCF8583_GET_ADDRESS, reg := 0, bit_n := 0, data_line := 0, sclk_line := 0\<rparr>"
    unfolding c1_def using s0(2) assms(2,3) by (rule run_start)
  have "pcf8583_run rtc c1 (drop 2 calls) =
      c1\<lparr>data_line := of_bool (bit a 0), sclk_line := 0, reg := a, bit_n := 8,
           state := (if a = 0xa0 then PCF8583_ADDRESS_WRITE_ACK
                     else if a = 0xa1 then PCF8583_ADDRESS_READ_ACK else PCF8583_IDLE)\<rparr>"
    using s0(3) by (rule recv_address) (simp_all add: c1)
  with assms(4,5) s0(1) show ?thesis
    by (simp add: c1_def [symmetric]) (simp add: c1 i2c_start_frame)
qed

text \<open>
  Claim C6, as stated, fails: a lone START condition commits no byte, and it leaves the
  chip in \<open>START_WAIT\<close>, not in \<open>IDLE\<close>.
\<close>

theorem idle_after_any_sequence_counterexample:
  "no_byte_commit rtc_stub (pcf8583_init ''rtc'' None) [(host_at 1, Set_data_line 0)] \<and>
   state (pcf8583_run rtc_stub (pcf8583_init ''rtc'' None) [(host_at 1, Set_data_line 0)]) =
     PCF8583_START_WAIT \<and>
   state (pcf8583_run rtc_stub (pcf8583_init ''rtc'' None) [(host_at 1, Set_data_line 0)]) \<noteq>
     PCF8583_IDLE"
  by (simp add: pointer_commit_def write_commit_def run_Cons run_Nil pcf8583_set_data_line_def
      Let_def pcf8583_init_def)

text \<open>Which calls take the chip to \<open>IDLE\<close>, and which runs end there.\<close>

lemma call_idle_iff:
  "state (pcf8583_call rtc c x) = PCF8583_IDLE \<longleftrightarrow>
   (state c = PCF8583_IDLE \<and> \<not> start_condition c x) \<or> aborts c x"
proof -
  obtain h b where x: "x = (h, b)" by (cases x) auto
  show ?thesis
  proof (cases b)
    case (Set_clk_line d)
    then show ?thesis
      by (cases "state c")
        (auto simp add: x aborts_def address_rejected_def read_nacked_def clk_defs Let_def
          bit_n_eq_7 write_register_bus)
  next
    case (Set_data_line d)
    then show ?thesis
      by (auto simp add: x aborts_def address_rejected_def read_nacked_def
          pcf8583_set_data_line_def Let_def i2c_start_frame)
  qed
qed

lemma no_start_append:
  "no_start rtc c (xs @ ys) = (no_start rtc c xs \<and> no_start rtc (pcf8583_run rtc c xs) ys)"
  by (induction xs arbitrary: c) (simp_all add: run_Nil run_Cons)

lemma run_idle_iff:
  "state (pcf8583_run rtc c calls) = PCF8583_IDLE \<longleftrightarrow>
   (state c = PCF8583_IDLE \<and> no_start rtc c calls) \<or>
   (\<exists>pre x post. calls = pre @ x # post \<and> aborts (pcf8583_run rtc c pre) x \<and>
      no_start rtc (pcf8583_call rtc (pcf8583_run rtc c pre) x) post)"
proof (induction calls arbitrary: c)
  case Nil
  then show ?case by (simp add: run_Nil)
next
  case (Cons y ys)
  let ?c = "pcf8583_call rtc c y"
  have tail: "(\<exists>pre x post. y # ys = pre @ x # post \<and> aborts (pcf8583_run rtc c pre) x \<and>
      no_start rtc (pcf8583_call rtc (pcf8583_run rtc c pre) x) post) \<longleftrightarrow>
    (aborts c y \<and> no_start rtc ?c ys) \<or>
    (\<exists>pre x post. ys = pre @ x # post \<and> aborts (pcf8583_run rtc ?c pre) x \<and>
      no_start rtc (pcf8583_call rtc (pcf8583_run rtc ?c pre) x) post)"
    (is "?L \<longleftrightarrow> ?A \<or> ?R")
  proof
    assume ?L
    then obtain pre x post where d: "y # ys = pre @ x # post"
      and a: "aborts (pcf8583_run rtc c pre) x"
      and n: "no_start rtc (pcf8583_call rtc (pcf8583_run rtc c pre) x) post" by blast
    show "?A \<or> ?R"
    proof (cases pre)
      case Nil
      with d a n show ?thesis by (simp add: run_Nil)
    next
      case (Cons p pre')
      with d have "p = y" "ys = pre' @ x # post" by simp_all
      with a n Cons have "ys = pre' @ x # post \<and> aborts (pcf8583_run rtc ?c pre') x \<and>
          no_start rtc (pcf8583_call rtc (pcf8583_run rtc ?c pre') x) post"
        by (simp add: run_Cons)
      then have ?R by blast
      then show ?thesis ..
    qed
  next
    assume "?A \<or> ?R"
    then show ?L
    proof
      assume ?A
      then have "y # ys = [] @ y # ys \<and> aborts (pcf8583_run rtc c []) y \<and>
          no_start rtc (pcf8583_call rtc (pcf8583_run rtc c []) y) ys"
        by (simp add: run_Nil)
      then show ?L by blast
    next
      assume ?R
      then obtain pre x post where d: "ys = pre @ x # post"
        and a: "aborts (pcf8583_run rtc ?c pre) x"
        and n: "no_start rtc (pcf8583_call rtc (pcf8583_run rtc ?c pre) x) post" by blast
      then have "y # ys = (y # pre) @ x # post \<and> aborts (pcf8583_run rtc c (y # pre)) x \<and>
          no_start rtc (pcf8583_call rtc (pcf8583_run rtc c (y # pre)) x) post"
        by (simp add: run_Cons)
      then show ?L by blast
    qed
  qed
  have "state (pcf8583_run rtc c (y # ys)) = PCF8583_IDLE \<longleftrightarrow>
      state (pcf8583_run rtc ?c ys) = PCF8583_IDLE"
    by (simp add: run_Cons)
  also have "\<dots> \<longleftrightarrow> (state ?c = PCF8583_IDLE \<and> no_start rtc ?c ys) \<or>
      (\<exists>pre x post. ys = pre @ x # post \<and> aborts (pcf8583_run rtc ?c pre) x \<and>
        no_start rtc (pcf8583_call rtc (pcf8583_run rtc ?c pre) x) post)"
    by (rule Cons.IH)
  also have "\<dots> \<longleftrightarrow> (state c = PCF8583_IDLE \<and> no_start rtc c (y # ys)) \<or>
      (\<exists>pre x post. y # ys = pre @ x # post \<and> aborts (pcf8583_run rtc c pre) x \<and>
        no_start rtc (pcf8583_call rtc (pcf8583_run rtc c pre) x) post)"
    unfolding tail call_idle_iff [of rtc c y] by auto
  finally show ?case .
qed

text \<open>
  Claim C6, amended. Over any bus calls among which no data byte is committed (none is
  the falling clock edge that clocks in the eighth bit in \<open>WRITE_REGS\<close>), the RAM block
  and the 16 stored registers stay as they were. The state ends in \<open>IDLE\<close> exactly when
  the chip was in \<open>IDLE\<close> and the calls hold no START condition, or one of the calls
  aborts the transfer (a STOP condition, the eighth bit of an address byte other than
  0xA0 and 0xA1, or a read NACK) and no START condition follows it; after any other
  calls, those that stop part-way through a transaction, the state is not \<open>IDLE\<close>. In
  particular, from an idle bus, a START condition followed by an address byte other
  than 0xA0 and 0xA1 ends in \<open>IDLE\<close> and changes neither RAM nor registers.
\<close>

theorem uncommitted_sequence_frame:
  "(no_write_commit rtc c calls \<longrightarrow>
      ram (pcf8583_run rtc c calls) = ram c \<and>
      clock_regs (pcf8583_run rtc c calls) = clock_regs c) \<and>
   (state (pcf8583_run rtc c calls) = PCF8583_IDLE \<longleftrightarrow>
      (state c = PCF8583_IDLE \<and> no_start rtc c calls) \<or>
      (\<exists>pre x post. calls = pre @ x # post \<and> aborts (pcf8583_run rtc c pre) x \<and>
         no_start rtc (pcf8583_call rtc (pcf8583_run rtc c pre) x) post)) \<and>
   (map snd calls = start_lines @ send_byte a \<and> sclk_line c = 1 \<and> data_line c = 1 \<and>
    a \<noteq> 0xa0 \<and> a \<noteq> 0xa1 \<longrightarrow>
      state (pcf8583_run rtc c calls) = PCF8583_IDLE \<and>
      ram (pcf8583_run rtc c calls) = ram c \<and>
      clock_regs (pcf8583_run rtc c calls) = clock_regs c)"
proof (intro conjI impI)
  assume "no_write_commit rtc c calls"
  then show "ram (pcf8583_run rtc c calls) = ram c"
    and "clock_regs (pcf8583_run rtc c calls) = clock_regs c"
    by (simp_all add: run_no_write_commit)
next
  show "state (pcf8583_run rtc c calls) = PCF8583_IDLE \<longleftrightarrow>
      (state c = PCF8583_IDLE \<and> no_start rtc c calls) \<or>
      (\<exists>pre x post. calls = pre @ x # post \<and> aborts (pcf8583_run rtc c pre) x \<and>
         no_start rtc (pcf8583_call rtc (pcf8583_run rtc c pre) x) post)"
    by (rule run_idle_iff)
next
  assume h: "map snd calls = start_lines @ send_byte a \<and> sclk_line c = 1 \<and> data_line c = 1 \<and>
    a \<noteq> 0xa0 \<and> a \<noteq> 0xa1"
  from h have h1: "map snd calls = start_lines @ send_byte a" by blast
  from h have h2: "sclk_line c = 1" by blast
  from h have h3: "data_line c = 1" by blast
  from h have h4: "a \<noteq> 0xa0" by blast
  from h have h5: "a \<noteq> 0xa1" by blast
  have r: "state (pcf8583_run rtc c calls) = PCF8583_IDLE \<and>
      ram (pcf8583_run rtc c calls) = ram c \<and>
      clock_regs (pcf8583_run rtc c calls) = clock_regs c"
    using h1 h2 h3 h4 h5 by (rule run_unrecognized_address)
  from r show "state (pcf8583_run rtc c calls) = PCF8583_IDLE" by simp
  from r show "ram (pcf8583_run rtc c calls) = ram c" by simp
  from r show "clock_regs (pcf8583_run rtc c calls) = clock_regs c" by simp
qed

text \<open>
  Instances, on the context \<open>pcf8583_init\<close> makes: a lone START condition changes no
  RAM and leaves the chip outside \<open>IDLE\<close>; clock and data changes with no START
  condition leave it in \<open>IDLE\<close>; a START condition followed by a STOP condition ends
  in \<open>IDLE\<close>; so does a NACK in \<open>READ_ACK\<close>, and so does the address byte 0x42.
\<close>

theorem uncommitted_sequence_frame_witness:
  "no_write_commit rtc_stub (pcf8583_init ''rtc'' None) [(host_at 1, Set_data_line 0)] \<and>
   ram (pcf8583_run rtc_stub (pcf8583_init ''rtc'' None) [(host_at 1, Set_data_line 0)]) =
     ram (pcf8583_init ''rtc'' None) \<and>
   state (pcf8583_run rtc_stub (pcf8583_init ''rtc'' None) [(host_at 1, Set_data_line 0)]) \<noteq>
     PCF8583_IDLE \<and>
   state (pcf8583_init ''rtc'' None) = PCF8583_IDLE \<and>
   no_start rtc_stub (pcf8583_init ''rtc'' None)
     [(host_at 1, Set_clk_line 0), (host_at 2, Set_data_line 0)] \<and>
   state (pcf8583_run rtc_stub (pcf8583_init ''rtc'' None)
     [(host_at 1, Set_clk_line 0), (host_at 2, Set_data_line 0)]) = PCF8583_IDLE \<and>
   aborts (pcf8583_run rtc_stub (pcf8583_init ''rtc'' None) [(host_at 1, Set_data_line 0)])
     (host_at 2, Set_data_line 1) \<and>
   state (pcf8583_run rtc_stub (pcf8583_init ''rtc'' None)
     [(host_at 1, Set_data_line 0), (host_at 2, Set_data_line 1)]) = PCF8583_IDLE \<and>
   aborts ((pcf8583_init ''rtc'' None)\<lparr>state := PCF8583_READ_ACK\<rparr>) (host_at 1, Set_clk_line 0) \<and>
   state (pcf8583_run rtc_stub ((pcf8583_init ''rtc'' None)\<lparr>state := PCF8583_READ_ACK\<rparr>)
     [(host_at 1, Set_clk_line 0)]) = PCF8583_IDLE \<and>
   map snd (map (Pair (host_at 3)) (start_lines @ send_byte 0x42)) = start_lines @ send_byte 0x42 \<and>
   (0x42 :: BYTE) \<noteq> 0xa0 \<and> (0x42 :: BYTE) \<noteq> 0xa1 \<and>
   state (pcf8583_run rtc_stub (pcf8583_init ''rtc'' None)
     (map (Pair (host_at 3)) (start_lines @ send_byte 0x42))) = PCF8583_IDLE"
proof -
  define c0 where "c0 = pcf8583_init ''rtc'' None"
  define s where "s = (host_at 1, Set_data_line 0)"
  define p where "p = (host_at 2, Set_data_line 1)"
  define k where "k = (host_at 1, Set_clk_line 0)"
  have l: "sclk_line c0 = 1" "data_line c0 = 1" "state c0 = PCF8583_IDLE"
    by (simp_all add: c0_def pcf8583_init_def)
  have a: "no_write_commit rtc_stub c0 [s]"
    by (simp add: write_commit_def s_def)
  have b: "no_start rtc_stub c0 [(host_at 1, Set_clk_line 0), (host_at 2, Set_data_line 0)]"
    by (simp add: l pcf8583_set_clk_line_def Let_def)
  have m: "map snd (map (Pair (host_at 3)) (start_lines @ send_byte 0x42)) =
      start_lines @ send_byte 0x42"
    by (simp add: comp_def)
  have n: "(0x42 :: BYTE) \<noteq> 0xa0" "(0x42 :: BYTE) \<noteq> 0xa1" by simp_all
  have 1: "ram (pcf8583_run rtc_stub c0 [s]) = ram c0"
    by (rule uncommitted_sequence_frame [of rtc_stub c0 "[s]",
          THEN conjunct1, THEN mp, OF a, THEN conjunct1])
  \<comment> \<open>the lone START condition: neither disjunct holds\<close>
  have st: "start_condition c0 s" by (simp add: s_def l)
  have na: "\<not> aborts c0 s"
    by (simp add: s_def aborts_def address_rejected_def read_nacked_def)
  have "\<not> ((state c0 = PCF8583_IDLE \<and> no_start rtc_stub c0 [s]) \<or>
      (\<exists>pre x post. [s] = pre @ x # post \<and> aborts (pcf8583_run rtc_stub c0 pre) x \<and>
         no_start rtc_stub (pcf8583_call rtc_stub (pcf8583_run rtc_stub c0 pre) x) post))"
    using st na by (auto simp add: Cons_eq_append_conv run_Nil)
  then have 2: "state (pcf8583_run rtc_stub c0 [s]) \<noteq> PCF8583_IDLE"
    using uncommitted_sequence_frame [of rtc_stub c0 "[s]", THEN conjunct2, THEN conjunct1]
    by blast
  \<comment> \<open>no START condition\<close>
  have 3: "state (pcf8583_run rtc_stub c0
      [(host_at 1, Set_clk_line 0), (host_at 2, Set_data_line 0)]) = PCF8583_IDLE"
    using uncommitted_sequence_frame
      [of rtc_stub c0 "[(host_at 1, Set_clk_line 0), (host_at 2, Set_data_line 0)]",
       THEN conjunct2, THEN conjunct1] l(3) b
    by blast
  \<comment> \<open>START, then STOP\<close>
  have ab: "aborts (pcf8583_run rtc_stub c0 [s]) p"
    by (simp add: s_def p_def aborts_def run_Cons run_Nil pcf8583_set_data_line_def Let_def l
        i2c_start_frame)
  have "[s, p] = [s] @ p # [] \<and> aborts (pcf8583_run rtc_stub c0 [s]) p \<and>
      no_start rtc_stub (pcf8583_call rtc_stub (pcf8583_run rtc_stub c0 [s]) p) []"
    using ab by simp
  then have 4: "state (pcf8583_run rtc_stub c0 [s, p]) = PCF8583_IDLE"
    using uncommitted_sequence_frame [of rtc_stub c0 "[s, p]", THEN conjunct2, THEN conjunct1]
    by blast
  \<comment> \<open>a read NACK\<close>
  have nk: "aborts (c0\<lparr>state := PCF8583_READ_ACK\<rparr>) k"
    by (simp add: k_def aborts_def read_nacked_def l)
  have "[k] = [] @ k # [] \<and>
      aborts (pcf8583_run rtc_stub (c0\<lparr>state := PCF8583_READ_ACK\<rparr>) []) k \<and>
      no_start rtc_stub (pcf8583_call rtc_stub
        (pcf8583_run rtc_stub (c0\<lparr>state := PCF8583_READ_ACK\<rparr>) []) k) []"
    using nk by (simp add: run_Nil)
  then have 5: "state (pcf8583_run rtc_stub (c0\<lparr>state := PCF8583_READ_ACK\<rparr>) [k]) = PCF8583_IDLE"
    using uncommitted_sequence_frame
      [of rtc_stub "c0\<lparr>state := PCF8583_READ_ACK\<rparr>" "[k]", THEN conjunct2, THEN conjunct1]
    by blast
  \<comment> \<open>an unrecognized address byte\<close>
  have 6: "state (pcf8583_run rtc_stub c0
      (map (Pair (host_at 3)) (start_lines @ send_byte 0x42))) = PCF8583_IDLE"
    by (rule uncommitted_sequence_frame
          [of rtc_stub c0 "map (Pair (host_at 3)) (start_lines @ send_byte 0x42)" "0x42",
           THEN conjunct2, THEN conjunct2, THEN mp,
           OF conjI [OF m conjI [OF l(1) conjI [OF l(2) conjI [OF n]]]], THEN conjunct1])
  from a 1 2 l(3) b 3 ab 4 nk 5 m n 6 show ?thesis
    unfolding c0_def s_def p_def k_def by (intro conjI)
qed

end
